theory Spec2Isabelle
  imports Complex_Main "HOL-Library.Sublist" "HOL-Library.Word"
begin

unbundle bit_operations_syntax

section \<open>Python values shared by the modules\<close>

text \<open>
  Exceptions are values. The constructor records the Python class, the argument its
  message (what \<^verbatim>\<open>str(e)\<close> returns). \<open>ExternalError\<close> stands for whatever an external
  collaborator raises: the HTTP transport, the object-storage API, the chat platform,
  the file system.
\<close>

datatype exn =
    ValueError string
  | TypeError string
  | AttributeError string
  | KeyError string
  | BinasciiError string
  | ExternalError string

fun str_exn :: "exn \<Rightarrow> string" where
  "str_exn (ValueError m) = m"
| "str_exn (TypeError m) = m"
| "str_exn (AttributeError m) = m"
| "str_exn (KeyError m) = m"
| "str_exn (BinasciiError m) = m"
| "str_exn (ExternalError m) = m"

text \<open>
  A parsed JSON document, as \<^verbatim>\<open>response.json()\<close> returns it. A dict is the list of its
  items, read with \<open>map_of\<close>. Numbers are integers here. A byte string is a list of
  8-bit words.
\<close>

type_synonym byte = "8 word"

datatype json =
    JNull
  | JBool bool
  | JInt int
  | JStr string
  | JList "json list"
  | JObj "(string \<times> json) list"

text \<open>Python truthiness of a JSON value (\<^verbatim>\<open>if x:\<close>).\<close>

fun truthy :: "json \<Rightarrow> bool" where
  "truthy JNull = False"
| "truthy (JBool b) = b"
| "truthy (JInt n) = (n \<noteq> 0)"
| "truthy (JStr s) = (s \<noteq> [])"
| "truthy (JList xs) = (xs \<noteq> [])"
| "truthy (JObj kvs) = (kvs \<noteq> [])"

text \<open>\<^verbatim>\<open>key in d\<close> and \<^verbatim>\<open>d.get(key, default)\<close> on a dict.\<close>

definition has_key :: "(string \<times> json) list \<Rightarrow> string \<Rightarrow> bool" where
  "has_key d k = (map_of d k \<noteq> None)"

definition dict_get :: "(string \<times> json) list \<Rightarrow> string \<Rightarrow> json \<Rightarrow> json" where
  "dict_get d k dflt = (case map_of d k of None \<Rightarrow> dflt | Some v \<Rightarrow> v)"

text \<open>The name of a value's class, as Python's error messages print it.\<close>

fun py_type_name :: "json \<Rightarrow> string" where
  "py_type_name JNull = ''NoneType''"
| "py_type_name (JBool b) = ''bool''"
| "py_type_name (JInt n) = ''int''"
| "py_type_name (JStr s) = ''str''"
| "py_type_name (JList xs) = ''list''"
| "py_type_name (JObj kvs) = ''dict''"

definition quote :: string where
  "quote = [CHR 0x27]"

text \<open>The exception of \<^verbatim>\<open>v.attr\<close> on a value whose class has no such attribute.\<close>

definition no_attribute :: "json \<Rightarrow> string \<Rightarrow> exn" where
  "no_attribute v attr =
     AttributeError
       (quote @ py_type_name v @ quote @ '' object has no attribute '' @ quote @ attr @ quote)"

subsection \<open>Strings\<close>

text \<open>
  \<^verbatim>\<open>str.lower()\<close> on the ASCII range: the letters A-Z move to a-z, every other character
  stays. \<^verbatim>\<open>p in s\<close> on strings is the search for a contiguous occurrence.
\<close>

definition lower_char :: "char \<Rightarrow> char" where
  "lower_char c =
     (let n = (of_char c :: nat)
      in if 65 \<le> n \<and> n \<le> 90 then char_of (n + 32) else c)"

definition lower :: "string \<Rightarrow> string" where
  "lower s = map lower_char s"

fun str_contains :: "string \<Rightarrow> string \<Rightarrow> bool" where
  "str_contains [] p = (p = [])"
| "str_contains (c # cs) p = (prefix p (c # cs) \<or> str_contains cs p)"

text \<open>
  \<^verbatim>\<open>s.replace(old, new)\<close> for a non-empty \<open>old\<close>: the occurrences are replaced from the
  left, without overlap. \<^verbatim>\<open>s.split(sep, 1)\<close> for a one-character separator: at most one
  split, at the first separator.
\<close>

fun str_replace :: "string \<Rightarrow> string \<Rightarrow> string \<Rightarrow> string" where
  "str_replace old new [] = []"
| "str_replace old new (c # cs) =
     (if old \<noteq> [] \<and> prefix old (c # cs)
      then new @ str_replace old new (drop (length old - 1) cs)
      else c # str_replace old new cs)"

definition split_once :: "char \<Rightarrow> string \<Rightarrow> string list" where
  "split_once sep s =
     (if sep \<in> set s
      then [takeWhile (\<lambda>c. c \<noteq> sep) s, tl (dropWhile (\<lambda>c. c \<noteq> sep) s)]
      else [s])"

section \<open>config/settings.py\<close>

definition DEFAULT_MODEL :: string where
  "DEFAULT_MODEL = ''veo-3.1-fast-generate-001''"

definition DEFAULT_DURATION :: int where
  "DEFAULT_DURATION = 8"

definition DEFAULT_RESOLUTION :: string where
  "DEFAULT_RESOLUTION = ''720p''"

definition GLOBAL_VIDEO_QUOTA_LIMIT :: nat where
  "GLOBAL_VIDEO_QUOTA_LIMIT = 70"

section \<open>database/settings.py\<close>

text \<open>
  The table \<^verbatim>\<open>user_settings\<close> has the primary key \<^verbatim>\<open>user_id\<close> and three NOT NULL
  columns: it is a finite map from the key to the other three columns. The functions
  read and write the table through the module's connection; here they take the table
  and return the new one.
\<close>

record settings_row =
  row_model :: string
  row_duration :: int
  row_resolution :: string

type_synonym settings_table = "int \<rightharpoonup> settings_row"

record user_settings =
  user_id :: int
  model :: string
  duration :: int
  resolution :: string

definition get_user_settings :: "settings_table \<Rightarrow> int \<Rightarrow> user_settings" where
  "get_user_settings tbl uid =
     (case tbl uid of
        Some row \<Rightarrow>
          \<lparr>user_id = uid, model = row_model row, duration = row_duration row,
           resolution = row_resolution row\<rparr>
      | None \<Rightarrow>
          \<lparr>user_id = uid, model = DEFAULT_MODEL, duration = DEFAULT_DURATION,
           resolution = DEFAULT_RESOLUTION\<rparr>)"

definition set_user_settings ::
  "settings_table \<Rightarrow> int \<Rightarrow> string option \<Rightarrow> int option \<Rightarrow> string option
     \<Rightarrow> settings_table \<times> user_settings" where
  "set_user_settings tbl uid new_model new_duration new_resolution =
     (let current = get_user_settings tbl uid;
          current = (case new_model of None \<Rightarrow> current
                     | Some m \<Rightarrow> current\<lparr>model := m\<rparr>);
          current = (case new_duration of None \<Rightarrow> current
                     | Some d \<Rightarrow> current\<lparr>duration := d\<rparr>);
          current = (case new_resolution of None \<Rightarrow> current
                     | Some r \<Rightarrow> current\<lparr>resolution := r\<rparr>)
      in (tbl(uid \<mapsto> \<lparr>row_model = model current, row_duration = duration current,
                        row_resolution = resolution current\<rparr>),
          current))"

definition reset_user_settings ::
  "settings_table \<Rightarrow> int \<Rightarrow> settings_table \<times> user_settings" where
  "reset_user_settings tbl uid =
     (let tbl' = tbl(uid := None) in (tbl', get_user_settings tbl' uid))"

text \<open>A call of \<^verbatim>\<open>set_user_settings\<close>, and a sequence of such calls run in order.\<close>

record set_call =
  call_user :: int
  call_model :: "string option"
  call_duration :: "int option"
  call_resolution :: "string option"

fun run_set_calls :: "settings_table \<Rightarrow> set_call list \<Rightarrow> settings_table" where
  "run_set_calls tbl [] = tbl"
| "run_set_calls tbl (c # cs) =
     run_set_calls
       (fst (set_user_settings tbl (call_user c) (call_model c) (call_duration c)
          (call_resolution c))) cs"

section \<open>The standard library's base64\<close>

text \<open>
  \<^verbatim>\<open>base64.b64decode(s)\<close> with its default \<^verbatim>\<open>validate=False\<close>: a string must be ASCII
  and is handed to \<^verbatim>\<open>binascii.a2b_base64\<close> in its non-strict mode, whose loop is
  \<open>a2b_base64\<close> below with the C variables \<^verbatim>\<open>quad_pos\<close>, \<^verbatim>\<open>leftchar\<close>, \<^verbatim>\<open>pads\<close> and the
  output buffer as arguments. Characters outside the alphabet are skipped; the padding
  that completes a quad ends the decoding. The message of the error for a single
  left-over character is given without the count that CPython prints in it.
\<close>

definition b64_alphabet :: string where
  "b64_alphabet = ''ABCDEFGHIJKLMNOPQRSTUVWXYZabcdefghijklmnopqrstuvwxyz0123456789+/''"

definition BASE64_PAD :: char where
  "BASE64_PAD = CHR ''=''"

definition table_b2a_base64 :: "byte \<Rightarrow> char" where
  "table_b2a_base64 i = b64_alphabet ! unat i"

definition table_a2b_base64 :: "char \<Rightarrow> byte option" where
  "table_a2b_base64 c = map_of (zip b64_alphabet (map of_nat [0..<64])) c"

fun a2b_base64 ::
  "string \<Rightarrow> nat \<Rightarrow> byte \<Rightarrow> nat \<Rightarrow> byte list \<Rightarrow> exn + byte list" where
  "a2b_base64 [] quad_pos leftchar pads bin_data =
     (if quad_pos \<noteq> 0 then
        (if quad_pos = 1
         then Inl (BinasciiError
           (''Invalid base64-encoded string: number of data characters cannot be 1 ''
            @ ''more than a multiple of 4''))
         else Inl (BinasciiError ''Incorrect padding''))
      else Inr bin_data)"
| "a2b_base64 (this_ch # ascii_data) quad_pos leftchar pads bin_data =
     (if this_ch = BASE64_PAD then
        (if quad_pos \<ge> 2 then
           (if quad_pos + (pads + 1) \<ge> 4 then Inr bin_data
            else a2b_base64 ascii_data quad_pos leftchar (pads + 1) bin_data)
         else a2b_base64 ascii_data quad_pos leftchar pads bin_data)
      else
        (case table_a2b_base64 this_ch of
           None \<Rightarrow> a2b_base64 ascii_data quad_pos leftchar pads bin_data
         | Some v \<Rightarrow>
             (if quad_pos = 0 then a2b_base64 ascii_data 1 v 0 bin_data
              else if quad_pos = 1 then
                a2b_base64 ascii_data 2 (v AND 0x0f) 0
                  (bin_data @ [push_bit 2 leftchar OR drop_bit 4 v])
              else if quad_pos = 2 then
                a2b_base64 ascii_data 3 (v AND 0x03) 0
                  (bin_data @ [push_bit 4 leftchar OR drop_bit 2 v])
              else
                a2b_base64 ascii_data 0 0 0
                  (bin_data @ [push_bit 6 leftchar OR v]))))"

definition b64decode :: "json \<Rightarrow> exn + byte list" where
  "b64decode s =
     (case s of
        JStr t \<Rightarrow>
          if list_ex (\<lambda>c. (of_char c :: nat) \<ge> 128) t
          then Inl (ValueError ''string argument should contain only ASCII characters'')
          else a2b_base64 t 0 0 0 []
      | _ \<Rightarrow>
          Inl (TypeError
            (''argument should be a bytes-like object or ASCII string, not ''
             @ quote @ py_type_name s @ quote)))"

text \<open>
  The encoding the remote service applies to the video, base64 of RFC 4648 with
  padding: three bytes become four characters of the alphabet.
\<close>

fun b64encode :: "byte list \<Rightarrow> string" where
  "b64encode [] = []"
| "b64encode [a] =
     [table_b2a_base64 (drop_bit 2 a), table_b2a_base64 (push_bit 4 (a AND 3)),
      BASE64_PAD, BASE64_PAD]"
| "b64encode [a, b] =
     [table_b2a_base64 (drop_bit 2 a),
      table_b2a_base64 (push_bit 4 (a AND 3) OR drop_bit 4 b),
      table_b2a_base64 (push_bit 2 (b AND 15)), BASE64_PAD]"
| "b64encode (a # b # c # rest) =
     [table_b2a_base64 (drop_bit 2 a),
      table_b2a_base64 (push_bit 4 (a AND 3) OR drop_bit 4 b),
      table_b2a_base64 (push_bit 2 (b AND 15) OR drop_bit 6 c),
      table_b2a_base64 (c AND 63)] @ b64encode rest"

section \<open>veo/client.py\<close>

record veo_client =
  project_id :: string
  location :: string

text \<open>
  \<^verbatim>\<open>_request\<close> is the authenticated POST. The remote side is a function from the endpoint,
  the body and the number of the call to what that call does: how long it takes (in
  milliseconds), and what \<^verbatim>\<open>_request\<close> raises (\<open>Inl\<close>) or returns (\<open>Inr\<close>). The clock is
  a number of milliseconds; it moves forward while a request runs and while the process
  sleeps, and \<open>overslept\<close> is what \<^verbatim>\<open>time.sleep(5)\<close> takes beyond its five seconds after
  that call.
\<close>

record status_call =
  took :: nat
  outcome :: "exn + json"
  overslept :: nat

type_synonym transport = "string \<Rightarrow> json \<Rightarrow> nat \<Rightarrow> status_call"

text \<open>
  The dict \<^verbatim>\<open>poll_operation\<close> returns. The key \<^verbatim>\<open>raiMediaFilteredCount\<close> is present in
  the completed result only.
\<close>

record poll_result =
  pr_done :: bool
  pr_error :: "string option"
  pr_videos :: json
  pr_raiMediaFilteredCount :: "json option"

text \<open>
  A run of \<^verbatim>\<open>poll_operation\<close>: the dict returned, the clock readings at which the status
  calls were issued, and the clock at the return.
\<close>

record poll_run =
  poll_returned :: poll_result
  call_times :: "nat list"
  returned_at :: nat

definition poll_endpoint :: "veo_client \<Rightarrow> string \<Rightarrow> string" where
  "poll_endpoint self mdl =
     ''projects/'' @ project_id self @ ''/locations/'' @ location self
       @ ''/publishers/google/models/'' @ mdl @ '':fetchPredictOperation''"

text \<open>
  The \<^verbatim>\<open>while\<close> loop. \<open>py_str\<close> is Python's \<^verbatim>\<open>str\<close> on a JSON value, \<open>n\<close> counts the status
  calls made so far and \<open>calls\<close> collects their clock readings. Every exception raised
  in the body is caught by the \<^verbatim>\<open>except Exception\<close> clause.
\<close>

function poll_loop ::
  "(json \<Rightarrow> string) \<Rightarrow> transport \<Rightarrow> string \<Rightarrow> json \<Rightarrow> int \<Rightarrow> nat \<Rightarrow> nat \<Rightarrow> nat
     \<Rightarrow> nat list \<Rightarrow> poll_run" where
  "poll_loop py_str request endpoint operation_name max_wait_time start_time now n calls =
     (if int now - int start_time < max_wait_time * 1000 then
        (let c = request endpoint (JObj [(''operationName'', operation_name)]) n;
             calls' = calls @ [now];
             now' = now + took c;
             failed = (\<lambda>e.
               \<lparr>poll_returned =
                  \<lparr>pr_done = True,
                   pr_error = Some (''API request failed: '' @ str_exn e),
                   pr_videos = JList [], pr_raiMediaFilteredCount = None\<rparr>,
                call_times = calls', returned_at = now'\<rparr>)
         in case outcome c of
              Inl e \<Rightarrow> failed e
            | Inr result \<Rightarrow>
                (case result of
                   JObj d \<Rightarrow>
                     if truthy (dict_get d ''done'' (JBool False)) then
                       (case map_of d ''error'' of
                          Some err \<Rightarrow>
                            \<lparr>poll_returned =
                               \<lparr>pr_done = True, pr_error = Some (py_str err),
                                pr_videos = JList [], pr_raiMediaFilteredCount = None\<rparr>,
                             call_times = calls', returned_at = now'\<rparr>
                        | None \<Rightarrow>
                            (case dict_get d ''response'' (JObj []) of
                               JObj response_data \<Rightarrow>
                                 \<lparr>poll_returned =
                                    \<lparr>pr_done = True, pr_error = None,
                                     pr_videos = dict_get response_data ''videos'' (JList []),
                                     pr_raiMediaFilteredCount =
                                       Some (dict_get response_data ''raiMediaFilteredCount''
                                         (JInt 0))\<rparr>,
                                  call_times = calls', returned_at = now'\<rparr>
                             | other \<Rightarrow> failed (no_attribute other ''get'')))
                     else
                       poll_loop py_str request endpoint operation_name max_wait_time
                         start_time (now' + 5000 + overslept c) (Suc n) calls'
                 | other \<Rightarrow> failed (no_attribute other ''get'')))
      else
        \<lparr>poll_returned =
           \<lparr>pr_done = False, pr_error = Some ''Operation timed out'',
            pr_videos = JList [], pr_raiMediaFilteredCount = None\<rparr>,
         call_times = calls, returned_at = now\<rparr>)"
  by pat_completeness auto
termination
  by (relation "measure (\<lambda>(py_str, request, endpoint, operation_name, max_wait_time,
        start_time, now, n, calls). nat (max_wait_time * 1000 - (int now - int start_time)))")
    auto

declare poll_loop.simps [simp del]

definition poll_operation ::
  "veo_client \<Rightarrow> (json \<Rightarrow> string) \<Rightarrow> transport \<Rightarrow> nat \<Rightarrow> json \<Rightarrow> string \<Rightarrow> int
     \<Rightarrow> poll_run" where
  "poll_operation self py_str request now operation_name mdl max_wait_time =
     (let endpoint = poll_endpoint self mdl;
          start_time = now
      in poll_loop py_str request endpoint operation_name max_wait_time start_time now 0 [])"

text \<open>
  \<^verbatim>\<open>download_video\<close>. The object-storage download is external: \<open>gcs bucket blob\<close> is the
  bytes of the blob, or the message of the error the storage API raises.
\<close>

definition unsupported_encoding :: exn where
  "unsupported_encoding =
     ValueError (''Video data must contain either '' @ quote @ ''gcsUri'' @ quote @ '' or ''
       @ quote @ ''bytesBase64Encoded'' @ quote)"

definition download_video ::
  "(string \<Rightarrow> string \<Rightarrow> string + byte list) \<Rightarrow> (string \<times> json) list \<Rightarrow> exn + byte list"
  where
  "download_video gcs video_data =
     (if has_key video_data ''gcsUri'' then
        (case dict_get video_data ''gcsUri'' JNull of
           JStr uri \<Rightarrow>
             (case split_once (CHR ''/'') (str_replace ''gs://'' [] uri) of
                [bucket_name, blob_path] \<Rightarrow>
                  (case gcs bucket_name blob_path of
                     Inl m \<Rightarrow> Inl (ExternalError m)
                   | Inr bytes \<Rightarrow> Inr bytes)
              | _ \<Rightarrow> Inl (ValueError ''not enough values to unpack (expected 2, got 1)''))
         | other \<Rightarrow> Inl (no_attribute other ''replace''))
      else if has_key video_data ''bytesBase64Encoded'' then
        b64decode (dict_get video_data ''bytesBase64Encoded'' JNull)
      else Inl unsupported_encoding)"

text \<open>
  \<^verbatim>\<open>generate_video\<close>: one POST, at clock reading \<open>now\<close>. The result is what the method raises
  or returns (the operation name and the model), with the clock reading after the request.
\<close>

definition generate_endpoint :: "veo_client \<Rightarrow> string \<Rightarrow> string" where
  "generate_endpoint self mdl =
     ''projects/'' @ project_id self @ ''/locations/'' @ location self
       @ ''/publishers/google/models/'' @ mdl @ '':predictLongRunning''"

definition generate_video ::
  "veo_client \<Rightarrow> (json \<Rightarrow> string) \<Rightarrow> transport \<Rightarrow> nat \<Rightarrow> string \<Rightarrow> string \<Rightarrow> int \<Rightarrow> string
     \<Rightarrow> bool \<Rightarrow> int \<Rightarrow> (exn + json \<times> string) \<times> nat" where
  "generate_video self py_str request now prompt mdl duration_seconds res generate_audio
       sample_count =
     (let endpoint = generate_endpoint self mdl;
          body = JObj
            [(''instances'', JList [JObj [(''prompt'', JStr prompt)]]),
             (''parameters'', JObj
                [(''durationSeconds'', JInt duration_seconds),
                 (''resolution'', JStr res),
                 (''generateAudio'', JBool generate_audio),
                 (''sampleCount'', JInt sample_count)])];
          c = request endpoint body 0
      in (case outcome c of
            Inl e \<Rightarrow> Inl e
          | Inr result \<Rightarrow>
              (case result of
                 JObj d \<Rightarrow>
                   (let operation_name = dict_get d ''name'' JNull
                    in if \<not> truthy operation_name
                       then Inl (ValueError (''Failed to get operation name: '' @ py_str result))
                       else Inr (operation_name, mdl))
               | other \<Rightarrow> Inl (no_attribute other ''get'')),
          now + took c))"

text \<open>
  The handler passes \<^verbatim>\<open>download_video\<close> whatever \<^verbatim>\<open>videos[0]\<close> is. On a value that is
  not a dict, \<^verbatim>\<open>in\<close> is the substring test of a string, the membership test of a list,
  and a \<^verbatim>\<open>TypeError\<close> otherwise; indexing a string or a list by a string raises.
\<close>

definition download_video_untyped ::
  "(string \<Rightarrow> string \<Rightarrow> string + byte list) \<Rightarrow> json \<Rightarrow> exn + byte list" where
  "download_video_untyped gcs video_data =
     (case video_data of
        JObj d \<Rightarrow> download_video gcs d
      | JStr t \<Rightarrow>
          if str_contains t ''gcsUri'' \<or> str_contains t ''bytesBase64Encoded''
          then Inl (TypeError ''string indices must be integers'')
          else Inl unsupported_encoding
      | JList xs \<Rightarrow>
          if JStr ''gcsUri'' \<in> set xs \<or> JStr ''bytesBase64Encoded'' \<in> set xs
          then Inl (TypeError ''list indices must be integers or slices, not str'')
          else Inl unsupported_encoding
      | other \<Rightarrow>
          Inl (TypeError
            (''argument of type '' @ quote @ py_type_name other @ quote @ '' is not iterable'')))"

section \<open>database/messages.py\<close>

text \<open>
  The table \<^verbatim>\<open>messages\<close> is the list of its rows in insertion order. Rows are never
  deleted, so the AUTOINCREMENT key of a new row is one more than the largest key in the
  table.
\<close>

record message_row =
  msg_id :: nat
  msg_user_id :: int
  msg_username :: "string option"
  msg_timestamp :: string
  msg_prompt_tokens :: int
  msg_output_prompt_tokens :: int
  msg_model :: string
  msg_cost :: rat
  msg_duration_seconds :: int
  msg_resolution :: string
  msg_status :: string

type_synonym messages_table = "message_row list"

definition next_rowid :: "messages_table \<Rightarrow> nat" where
  "next_rowid tbl = Suc (fold max (map msg_id tbl) 0)"

definition create_message ::
  "messages_table \<Rightarrow> string \<Rightarrow> int \<Rightarrow> string option \<Rightarrow> string \<Rightarrow> int \<Rightarrow> string \<Rightarrow> int \<Rightarrow> int
     \<Rightarrow> rat \<Rightarrow> string \<Rightarrow> messages_table \<times> nat" where
  "create_message tbl timestamp uid username mdl duration_seconds res prompt_tokens
       output_prompt_tokens cost status =
     (let lastrowid = next_rowid tbl
      in (tbl @
            [\<lparr>msg_id = lastrowid, msg_user_id = uid, msg_username = username,
              msg_timestamp = timestamp, msg_prompt_tokens = prompt_tokens,
              msg_output_prompt_tokens = output_prompt_tokens, msg_model = mdl,
              msg_cost = cost, msg_duration_seconds = duration_seconds,
              msg_resolution = res, msg_status = status\<rparr>],
          lastrowid))"

definition update_message ::
  "messages_table \<Rightarrow> nat \<Rightarrow> int option \<Rightarrow> int option \<Rightarrow> rat option \<Rightarrow> string option
     \<Rightarrow> messages_table" where
  "update_message tbl message_id prompt_tokens output_prompt_tokens cost status =
     map (\<lambda>row.
            if msg_id row = message_id then
              (let row = (case prompt_tokens of None \<Rightarrow> row
                          | Some x \<Rightarrow> row\<lparr>msg_prompt_tokens := x\<rparr>);
                   row = (case output_prompt_tokens of None \<Rightarrow> row
                          | Some x \<Rightarrow> row\<lparr>msg_output_prompt_tokens := x\<rparr>);
                   row = (case cost of None \<Rightarrow> row | Some x \<Rightarrow> row\<lparr>msg_cost := x\<rparr>);
                   row = (case status of None \<Rightarrow> row | Some x \<Rightarrow> row\<lparr>msg_status := x\<rparr>)
               in row)
            else row) tbl"

definition get_successful_videos_count :: "messages_table \<Rightarrow> nat" where
  "get_successful_videos_count tbl =
     length (filter (\<lambda>row. msg_status row = ''success'') tbl)"

definition get_total_cost :: "messages_table \<Rightarrow> rat" where
  "get_total_cost tbl =
     sum_list (map msg_cost (filter (\<lambda>row. msg_status row = ''success'') tbl))"

section \<open>storage/manager.py\<close>

text \<open>
  The temporary directory is a map from paths to file contents. \<^verbatim>\<open>mkstemp\<close> is external:
  it gives the new path or the message of its error. \<^verbatim>\<open>cleanup\<close> swallows the error of
  \<^verbatim>\<open>unlink\<close>, and the file stays.
\<close>

type_synonym temp_dir = "string \<rightharpoonup> byte list"

definition create_temp_file :: "string + string \<Rightarrow> temp_dir \<Rightarrow> exn + temp_dir \<times> string" where
  "create_temp_file mkstemp dir =
     (case mkstemp of
        Inl m \<Rightarrow> Inl (ExternalError m)
      | Inr path \<Rightarrow> Inr (dir(path \<mapsto> []), path))"

definition cleanup :: "string option \<Rightarrow> temp_dir \<Rightarrow> string \<Rightarrow> temp_dir" where
  "cleanup unlink_error dir file_path =
     (if dir file_path \<noteq> None then
        (case unlink_error of
           None \<Rightarrow> dir(file_path := None)
         | Some m \<Rightarrow> dir)
      else dir)"

section \<open>bot/handlers/messages.py\<close>

subsection \<open>The cost\<close>

text \<open>
  The two rates and the product are Python floats in the source; here they are exact
  rationals, so 0.15 is \<open>15 / 100\<close>.
\<close>

definition calculate_cost :: "string \<Rightarrow> int \<Rightarrow> rat" where
  "calculate_cost mdl duration_seconds =
     (let is_fast = str_contains (lower mdl) ''fast'';
          price_per_second = (if is_fast then 15 / 100 else 40 / 100);
          cost = price_per_second * of_int duration_seconds
      in cost)"

subsection \<open>The world of the handler\<close>

text \<open>
  The handler reads and writes the two tables, the temporary directory and the clock,
  and it calls the chat platform, the generation service and object storage. The world
  holds the state; \<open>trace\<close> lists, in order, the writes to the ledger and the calls made
  to the outside (a call is listed whether it returns or raises; the creation of the
  temporary file is listed when the file exists). The environment holds what the outside
  answers.
\<close>

record incoming =
  from_user_id :: int
  from_username :: "string option"
  from_first_name :: string
  message_text :: "string option"

text \<open>The texts the handler sends, by their content.\<close>

datatype bot_text =
    PleaseSendTextPrompt
  | PleaseProvideTextPrompt
  | QuotaLimitReached nat nat rat int
  | GenerationRequested
  | GenerationStarted
  | GenerationFailed string
  | GenerationTimedOut
  | NoVideosGenerated
  | DownloadingVideo
  | UploadingVideo
  | ErrorOccurred string

record caption =
  cap_minutes :: nat
  cap_seconds :: nat
  cap_prompt :: string
  cap_model :: string
  cap_duration :: int
  cap_resolution :: string
  cap_audio :: bool
  cap_filtered :: "json option"
  cap_cost :: rat
  cap_rate :: rat

datatype tg_request =
    Answer bot_text
  | EditText bot_text
  | AnswerVideo string caption
  | DeleteStatus

text \<open>The places where the handler calls the chat platform.\<close>

datatype tg_site =
    AtNoText
  | AtNoPrompt
  | AtQuota
  | AtRequested
  | AtStarted
  | AtFailed
  | AtTimedOut
  | AtNoVideos
  | AtDownloading
  | AtUploading
  | AtVideo
  | AtDelete
  | AtError

datatype event =
    DbCreate nat
  | DbUpdate nat "string option" "rat option"
  | Telegram tg_request
  | Submit
  | Poll nat
  | Download
  | TempCreate string
  | TempWrite string
  | Cleanup string

record world =
  ledger :: messages_table
  settings :: settings_table
  files :: temp_dir
  clock :: nat
  trace :: "event list"

record env =
  env_client :: veo_client
  env_py_str :: "json \<Rightarrow> string"
  env_request :: transport
  env_gcs :: "string \<Rightarrow> string \<Rightarrow> string + byte list"
  env_tg_error :: "tg_site \<Rightarrow> string option"
  env_timestamp :: string
  env_mkstemp :: "string + string"
  env_write_error :: "string option"
  env_unlink_error :: "string option"

text \<open>
  A step of the handler gives the world after it and the exception it raised, if any.
  \<open>and_then\<close> runs the rest only when nothing was raised.
\<close>

definition and_then ::
  "world \<times> exn option \<Rightarrow> (world \<Rightarrow> world \<times> exn option) \<Rightarrow> world \<times> exn option" where
  "and_then r rest = (case r of (w, Some e) \<Rightarrow> (w, Some e) | (w, None) \<Rightarrow> rest w)"

definition tg_call :: "env \<Rightarrow> tg_site \<Rightarrow> tg_request \<Rightarrow> world \<Rightarrow> world \<times> exn option" where
  "tg_call e site req w =
     (w\<lparr>trace := trace w @ [Telegram req]\<rparr>,
      case env_tg_error e site of None \<Rightarrow> None | Some m \<Rightarrow> Some (ExternalError m))"

definition db_update ::
  "nat \<Rightarrow> rat option \<Rightarrow> string option \<Rightarrow> world \<Rightarrow> world \<times> exn option" where
  "db_update message_id cost status w =
     (w\<lparr>ledger := update_message (ledger w) message_id None None cost status,
        trace := trace w @ [DbUpdate message_id status cost]\<rparr>,
      None)"

definition write_bytes :: "env \<Rightarrow> string \<Rightarrow> byte list \<Rightarrow> world \<Rightarrow> world \<times> exn option" where
  "write_bytes e path bytes w =
     (case env_write_error e of
        None \<Rightarrow> (w\<lparr>files := (files w)(path \<mapsto> bytes), trace := trace w @ [TempWrite path]\<rparr>, None)
      | Some m \<Rightarrow> (w\<lparr>trace := trace w @ [TempWrite path]\<rparr>, Some (ExternalError m)))"

text \<open>\<^verbatim>\<open>str.strip()\<close> on the ASCII range, and \<^verbatim>\<open>videos[0]\<close> on a truthy JSON value.\<close>

definition is_space :: "char \<Rightarrow> bool" where
  "is_space c =
     (c \<in> set [CHR 0x20, CHR 0x09, CHR 0x0A, CHR 0x0B, CHR 0x0C, CHR 0x0D, CHR 0x1C, CHR 0x1D,
               CHR 0x1E, CHR 0x1F])"

definition strip :: "string \<Rightarrow> string" where
  "strip t = rev (dropWhile is_space (rev (dropWhile is_space t)))"

definition first_item :: "json \<Rightarrow> exn + json" where
  "first_item videos =
     (case videos of
        JList (x # xs) \<Rightarrow> Inr x
      | JList [] \<Rightarrow> Inl (KeyError ''list index out of range'')
      | JStr (c # cs) \<Rightarrow> Inr (JStr [c])
      | JStr [] \<Rightarrow> Inl (KeyError ''string index out of range'')
      | JObj d \<Rightarrow> Inl (KeyError ''0'')
      | other \<Rightarrow>
          Inl (TypeError (quote @ py_type_name other @ quote @ '' object is not subscriptable'')))"

text \<open>\<^verbatim>\<open>rai_filtered > 0\<close>: the filtered count to print, if it is positive.\<close>

definition positive_count :: "json \<Rightarrow> exn + json option" where
  "positive_count rai_filtered =
     (case rai_filtered of
        JInt n \<Rightarrow> Inr (if n > 0 then Some rai_filtered else None)
      | JBool b \<Rightarrow> Inr (if b then Some rai_filtered else None)
      | other \<Rightarrow>
          Inl (TypeError
            (quote @ ''>'' @ quote @ '' not supported between instances of '' @ quote
             @ py_type_name other @ quote @ '' and '' @ quote @ ''int'' @ quote)))"

subsection \<open>The handler\<close>

text \<open>
  The body of the \<^verbatim>\<open>try\<close> block of \<^verbatim>\<open>handle_message\<close> in three parts, the last one
  first. The result \<open>(w, Some e)\<close> is an exception raised inside the block, for the
  \<^verbatim>\<open>except\<close> clause; \<open>(w, None)\<close> is a return or the normal end.

  \<open>deliver_video\<close> is the inner \<^verbatim>\<open>try\<close> with its \<^verbatim>\<open>finally\<close>, the update of the record to
  success and the deletion of the status message.
\<close>

definition deliver_video ::
  "env \<Rightarrow> nat \<Rightarrow> rat \<Rightarrow> caption \<Rightarrow> string \<Rightarrow> world \<Rightarrow> world \<times> exn option" where
  "deliver_video e message_id cost the_caption temp_file w =
     (let (w, sent) = tg_call e AtVideo (AnswerVideo temp_file the_caption) w;
          w = w\<lparr>files := cleanup (env_unlink_error e) (files w) temp_file,
                trace := trace w @ [Cleanup temp_file]\<rparr>
      in and_then (w, sent) (\<lambda>w.
         and_then (db_update message_id (Some cost) (Some ''success'') w)
           (tg_call e AtDelete DeleteStatus)))"

text \<open>
  \<open>download_and_deliver\<close> runs from the status update before the download to the
  delivery: the download, the temporary file, the status update before the upload and
  the caption.
\<close>

definition download_and_deliver ::
  "env \<Rightarrow> string \<Rightarrow> user_settings \<Rightarrow> nat \<Rightarrow> poll_result \<Rightarrow> nat \<Rightarrow> nat \<Rightarrow> rat \<Rightarrow> json \<Rightarrow> world
     \<Rightarrow> world \<times> exn option" where
  "download_and_deliver e prompt user_settings message_id poll_result minutes seconds cost
       video_data w =
     and_then (tg_call e AtDownloading (EditText DownloadingVideo) w) (\<lambda>w.
       let w = w\<lparr>trace := trace w @ [Download]\<rparr>
       in case download_video_untyped (env_gcs e) video_data of
            Inl ex \<Rightarrow> (w, Some ex)
          | Inr video_bytes \<Rightarrow>
              (case create_temp_file (env_mkstemp e) (files w) of
                 Inl ex \<Rightarrow> (w, Some ex)
               | Inr (dir, temp_file) \<Rightarrow>
                   (let w = w\<lparr>files := dir, trace := trace w @ [TempCreate temp_file]\<rparr>
                    in and_then (write_bytes e temp_file video_bytes w) (\<lambda>w.
                       and_then (tg_call e AtUploading (EditText UploadingVideo) w) (\<lambda>w.
                         case positive_count
                                (case pr_raiMediaFilteredCount poll_result of
                                   None \<Rightarrow> JInt 0 | Some x \<Rightarrow> x) of
                           Inl ex \<Rightarrow> (w, Some ex)
                         | Inr filtered \<Rightarrow>
                             deliver_video e message_id cost
                               \<lparr>cap_minutes = minutes, cap_seconds = seconds,
                                cap_prompt = take 200 prompt
                                  @ (if length prompt > 200 then ''...'' else []),
                                cap_model = model user_settings,
                                cap_duration = duration user_settings,
                                cap_resolution = resolution user_settings,
                                cap_audio = True, cap_filtered = filtered,
                                cap_cost = cost,
                                cap_rate =
                                  (if str_contains (lower (model user_settings)) ''fast''
                                   then 15 / 100 else 40 / 100)\<rparr>
                               temp_file w)))))"

text \<open>
  \<open>generation_pipeline\<close> is the whole block: the submission, the poll with its budget of
  600 seconds, the three failure branches, the elapsed time and the cost, the first
  video.
\<close>

definition generation_pipeline ::
  "env \<Rightarrow> string \<Rightarrow> user_settings \<Rightarrow> nat \<Rightarrow> world \<Rightarrow> world \<times> exn option" where
  "generation_pipeline e prompt user_settings message_id w =
     (let start_time = clock w;
          (result, t) =
            generate_video (env_client e) (env_py_str e) (env_request e) (clock w) prompt
              (model user_settings) (duration user_settings) (resolution user_settings) True 1;
          w = w\<lparr>clock := t, trace := trace w @ [Submit]\<rparr>
      in case result of
           Inl ex \<Rightarrow> (w, Some ex)
         | Inr (operation_name, submitted_model) \<Rightarrow>
             and_then (tg_call e AtStarted (EditText GenerationStarted) w) (\<lambda>w.
               let run = poll_operation (env_client e) (env_py_str e) (env_request e) (clock w)
                           operation_name (model user_settings) 600;
                   poll_result = poll_returned run;
                   w = w\<lparr>clock := returned_at run,
                         trace := trace w @ [Poll (length (call_times run))]\<rparr>
               in case pr_error poll_result of
                    Some (c # cs) \<Rightarrow>
                      and_then (db_update message_id None (Some ''failed'') w)
                        (tg_call e AtFailed (EditText (GenerationFailed (c # cs))))
                  | _ \<Rightarrow>
                      if \<not> pr_done poll_result then
                        and_then (db_update message_id None (Some ''failed'') w)
                          (tg_call e AtTimedOut (EditText GenerationTimedOut))
                      else
                        (let videos = pr_videos poll_result
                         in if \<not> truthy videos then
                              and_then (db_update message_id None (Some ''failed'') w)
                                (tg_call e AtNoVideos (EditText NoVideosGenerated))
                            else
                              (let elapsed_time = clock w - start_time;
                                   minutes = elapsed_time div 60000;
                                   seconds = (elapsed_time mod 60000) div 1000;
                                   cost = calculate_cost (model user_settings)
                                            (duration user_settings)
                               in case first_item videos of
                                    Inl ex \<Rightarrow> (w, Some ex)
                                  | Inr video_data \<Rightarrow>
                                      download_and_deliver e prompt user_settings message_id
                                        poll_result minutes seconds cost video_data w))))"

text \<open>
  \<^verbatim>\<open>handle_message\<close>: the checks of the text, the quota check, the new record, the
  first status message, the \<^verbatim>\<open>try\<close> block and its \<^verbatim>\<open>except\<close> clause. The exception in the
  result is the one that leaves the handler.
\<close>

definition handle_message :: "env \<Rightarrow> incoming \<Rightarrow> world \<Rightarrow> world \<times> exn option" where
  "handle_message e message w =
     (let uid = from_user_id message;
          username =
            (case from_username message of
               Some (c # cs) \<Rightarrow> c # cs
             | _ \<Rightarrow> if from_first_name message \<noteq> [] then from_first_name message
                    else ''Unknown'')
      in case message_text message of
           None \<Rightarrow> tg_call e AtNoText (Answer PleaseSendTextPrompt) w
         | Some [] \<Rightarrow> tg_call e AtNoText (Answer PleaseSendTextPrompt) w
         | Some (c # cs) \<Rightarrow>
             (let prompt = strip (c # cs)
              in if prompt = [] then tg_call e AtNoPrompt (Answer PleaseProvideTextPrompt) w
                 else
                   (let videos_generated = get_successful_videos_count (ledger w);
                        total_cost = get_total_cost (ledger w)
                    in if videos_generated \<ge> GLOBAL_VIDEO_QUOTA_LIMIT then
                         (let remaining_quota =
                                int GLOBAL_VIDEO_QUOTA_LIMIT - int videos_generated
                          in tg_call e AtQuota
                               (Answer (QuotaLimitReached GLOBAL_VIDEO_QUOTA_LIMIT
                                  videos_generated total_cost remaining_quota)) w)
                       else
                         (let user_settings = get_user_settings (settings w) uid;
                              (tbl, message_id) =
                                create_message (ledger w) (env_timestamp e) uid (Some username)
                                  (model user_settings) (duration user_settings)
                                  (resolution user_settings) 0 0 0 ''pending'';
                              w = w\<lparr>ledger := tbl, trace := trace w @ [DbCreate message_id]\<rparr>
                          in and_then (tg_call e AtRequested (Answer GenerationRequested) w) (\<lambda>w.
                               case generation_pipeline e prompt user_settings message_id w of
                                 (w, None) \<Rightarrow> (w, None)
                               | (w, Some ex) \<Rightarrow>
                                   and_then (db_update message_id None (Some ''failed'') w) (\<lambda>w.
                                     let error_msg = str_exn ex;
                                         error_msg =
                                           (if length error_msg > 200
                                            then take 200 error_msg @ ''...'' else error_msg)
                                     in tg_call e AtError (EditText (ErrorOccurred error_msg))
                                          w))))))"

section \<open>Vocabulary for the claims about polling\<close>

text \<open>
  What a stub of the status endpoint reports in a call: not done (a dict whose \<^verbatim>\<open>done\<close>
  is absent or falsy), or done with no error and the video list \<open>[v]\<close>.
\<close>

definition reports_not_done :: "status_call \<Rightarrow> bool" where
  "reports_not_done c =
     (case outcome c of
        Inr (JObj d) \<Rightarrow> \<not> truthy (dict_get d ''done'' (JBool False))
      | _ \<Rightarrow> False)"

definition reports_done_with :: "status_call \<Rightarrow> json \<Rightarrow> bool" where
  "reports_done_with c v =
     (case outcome c of
        Inr (JObj d) \<Rightarrow>
          truthy (dict_get d ''done'' (JBool False)) \<and> \<not> has_key d ''error'' \<and>
          (case dict_get d ''response'' (JObj []) of
             JObj response_data \<Rightarrow> dict_get response_data ''videos'' (JList []) = JList [v]
           | _ \<Rightarrow> False)
      | _ \<Rightarrow> False)"

text \<open>
  The clock reading at which status call number \<open>i\<close> (from 0) is issued when every
  earlier call reported not done: each round takes the request and a sleep of five
  seconds.
\<close>

fun call_time :: "(nat \<Rightarrow> status_call) \<Rightarrow> nat \<Rightarrow> nat \<Rightarrow> nat" where
  "call_time remote start 0 = start"
| "call_time remote start (Suc i) =
     call_time remote start i + took (remote i) + 5000 + overslept (remote i)"

definition status_body :: "json \<Rightarrow> json" where
  "status_body operation_name = JObj [(''operationName'', operation_name)]"

definition timed_out :: poll_result where
  "timed_out =
     \<lparr>pr_done = False, pr_error = Some ''Operation timed out'', pr_videos = JList [],
      pr_raiMediaFilteredCount = None\<rparr>"

definition status_stub :: "veo_client \<Rightarrow> transport \<Rightarrow> json \<Rightarrow> string \<Rightarrow> nat \<Rightarrow> status_call"
  where
  "status_stub self request operation_name mdl =
     request (poll_endpoint self mdl) (status_body operation_name)"

text \<open>
  Two stubs of the remote side: one reports not done in the first \<open>k\<close> status calls and
  then done with the video list \<open>[v]\<close>; the other never reports done. Every request takes
  300 ms.
\<close>

definition stub_done_after :: "nat \<Rightarrow> json \<Rightarrow> transport" where
  "stub_done_after k v endpoint body n =
     \<lparr>took = 300,
      outcome = Inr (if n < k then JObj [(''done'', JBool False)]
                     else JObj [(''done'', JBool True),
                                (''response'', JObj [(''videos'', JList [v])])]),
      overslept = 10\<rparr>"

definition stub_never_done :: transport where
  "stub_never_done endpoint body n =
     \<lparr>took = 300, outcome = Inr (JObj [(''name'', JStr ''operations/1'')]), overslept = 0\<rparr>"

section \<open>Vocabulary for the claims about the handler\<close>

text \<open>
  A remote side that accepts the submission and reports, in the first status call, done
  with one video given inline (the base64 of the two bytes \<open>Hi\<close>); an environment around
  it in which the chat platform and the write to the temporary file fail where the
  arguments say; a prompt; an empty world, and a ledger of \<open>n\<close> successful records.
\<close>

definition demo_remote :: transport where
  "demo_remote endpoint body n =
     \<lparr>took = 300,
      outcome = Inr
        (case body of
           JObj d \<Rightarrow>
             if has_key d ''operationName''
             then JObj [(''done'', JBool True),
                        (''response'',
                         JObj [(''videos'',
                                JList [JObj [(''bytesBase64Encoded'', JStr ''SGk='')]])])]
             else JObj [(''name'', JStr ''operations/1'')]
         | other \<Rightarrow> JNull),
      overslept = 0\<rparr>"

definition demo_path :: string where
  "demo_path = ''/tmp/telegram-video-gen/tmpa.mp4''"

definition demo_env :: "transport \<Rightarrow> (tg_site \<Rightarrow> string option) \<Rightarrow> string option \<Rightarrow> env" where
  "demo_env remote tg_error write_error =
     \<lparr>env_client = \<lparr>project_id = ''p'', location = ''us-central1''\<rparr>,
      env_py_str = (\<lambda>j. []),
      env_request = remote,
      env_gcs = (\<lambda>bucket blob. Inl ''NotFound''),
      env_tg_error = tg_error,
      env_timestamp = ''2025-01-01T00:00:00'',
      env_mkstemp = Inr demo_path,
      env_write_error = write_error,
      env_unlink_error = None\<rparr>"

definition demo_message :: incoming where
  "demo_message =
     \<lparr>from_user_id = 42, from_username = Some ''ada'', from_first_name = ''Ada'',
      message_text = Some ''sunset''\<rparr>"

definition empty_world :: world where
  "empty_world =
     \<lparr>ledger = [], settings = Map.empty, files = Map.empty, clock = 0, trace = []\<rparr>"

definition success_row :: "nat \<Rightarrow> message_row" where
  "success_row i =
     \<lparr>msg_id = i, msg_user_id = 7, msg_username = Some ''bob'',
      msg_timestamp = ''2025-01-01T00:00:00'', msg_prompt_tokens = 0,
      msg_output_prompt_tokens = 0, msg_model = ''veo-3.1-fast-generate-001'',
      msg_cost = 6 / 5, msg_duration_seconds = 8, msg_resolution = ''720p'',
      msg_status = ''success''\<rparr>"

definition world_with_successes :: "nat \<Rightarrow> world" where
  "world_with_successes n = empty_world\<lparr>ledger := map success_row [1..<Suc n]\<rparr>"

text \<open>
  The record the handler creates for the prompt above under the default settings, with
  a given key, cost and status; the path of the temporary file; and the calls of a run
  that delivers the video, up to the cleanup.
\<close>

definition demo_row :: "nat \<Rightarrow> rat \<Rightarrow> string \<Rightarrow> message_row" where
  "demo_row i cost status =
     \<lparr>msg_id = i, msg_user_id = 42, msg_username = Some ''ada'',
      msg_timestamp = ''2025-01-01T00:00:00'', msg_prompt_tokens = 0,
      msg_output_prompt_tokens = 0, msg_model = ''veo-3.1-fast-generate-001'',
      msg_cost = cost, msg_duration_seconds = 8, msg_resolution = ''720p'',
      msg_status = status\<rparr>"

definition delivery_trace :: "nat \<Rightarrow> event list" where
  "delivery_trace i =
     [DbCreate i, Telegram (Answer GenerationRequested), Submit,
      Telegram (EditText GenerationStarted), Poll 1,
      Telegram (EditText DownloadingVideo), Download,
      TempCreate demo_path, TempWrite demo_path,
      Telegram (EditText UploadingVideo),
      Telegram
        (AnswerVideo demo_path
           \<lparr>cap_minutes = 0, cap_seconds = 0, cap_prompt = ''sunset'',
            cap_model = ''veo-3.1-fast-generate-001'', cap_duration = 8,
            cap_resolution = ''720p'', cap_audio = True, cap_filtered = None,
            cap_cost = 6 / 5, cap_rate = 3 / 20\<rparr>),
      Cleanup demo_path]"

text \<open>Requests handled one after the other, each to its end.\<close>

fun handle_all :: "(env \<times> incoming) list \<Rightarrow> world \<Rightarrow> world" where
  "handle_all [] w = w"
| "handle_all ((e, message) # rest) w = handle_all rest (fst (handle_message e message w))"

section \<open>Properties of the settings store\<close>

text \<open>
  C7. \<^verbatim>\<open>set_user_settings\<close> merges the supplied fields onto the current
  (persisted-or-default) settings: a supplied field takes the given value, a field that
  is not supplied keeps its current value, the merged triple is the row stored for the
  user (the rows of other users are untouched), the merged record is returned, and a
  following \<^verbatim>\<open>get_user_settings\<close> for the same user returns it again.
\<close>

theorem set_user_settings_merge:
  "set_user_settings tbl uid m d r = (tbl', s) \<Longrightarrow>
     s = \<lparr>user_id = uid,
          model = (case m of Some x \<Rightarrow> x | None \<Rightarrow> model (get_user_settings tbl uid)),
          duration = (case d of Some x \<Rightarrow> x | None \<Rightarrow> duration (get_user_settings tbl uid)),
          resolution =
            (case r of Some x \<Rightarrow> x | None \<Rightarrow> resolution (get_user_settings tbl uid))\<rparr>
     \<and> tbl' uid =
         Some \<lparr>row_model = model s, row_duration = duration s, row_resolution = resolution s\<rparr>
     \<and> (\<forall>u. u \<noteq> uid \<longrightarrow> tbl' u = tbl u)
     \<and> get_user_settings tbl' uid = s"
  by (auto simp: set_user_settings_def get_user_settings_def Let_def split: option.splits)

theorem set_user_settings_merge_witness:
  "(let tbl = [5 \<mapsto> \<lparr>row_model = ''veo-3.0-generate-001'', row_duration = 4,
                      row_resolution = ''1080p''\<rparr>,
               7 \<mapsto> \<lparr>row_model = ''veo-3.1-generate-001'', row_duration = 8,
                      row_resolution = ''720p''\<rparr>];
        res = set_user_settings tbl 5 None (Some 6) None
    in snd res =
         \<lparr>user_id = 5, model = ''veo-3.0-generate-001'', duration = 6,
          resolution = ''1080p''\<rparr>
       \<and> get_user_settings (fst res) 5 = snd res
       \<and> fst res 7 = tbl 7)"
  using set_user_settings_merge [OF surjective_pairing,
      of "[5 \<mapsto> \<lparr>row_model = ''veo-3.0-generate-001'', row_duration = 4,
                    row_resolution = ''1080p''\<rparr>,
            7 \<mapsto> \<lparr>row_model = ''veo-3.1-generate-001'', row_duration = 8,
                    row_resolution = ''720p''\<rparr>]" 5 None "Some 6" None]
  by (simp add: Let_def get_user_settings_def)

text \<open>
  C8. After any sequence of \<^verbatim>\<open>set_user_settings\<close> calls, on any table,
  \<^verbatim>\<open>reset_user_settings\<close> followed by \<^verbatim>\<open>get_user_settings\<close> returns what the empty
  table returns for that user, which is the static default triple; the reset call itself
  returns the same record.
\<close>

theorem reset_then_get:
  "get_user_settings (fst (reset_user_settings (run_set_calls tbl cs) uid)) uid =
     get_user_settings Map.empty uid
   \<and> get_user_settings (fst (reset_user_settings (run_set_calls tbl cs) uid)) uid =
     \<lparr>user_id = uid, model = DEFAULT_MODEL, duration = DEFAULT_DURATION,
      resolution = DEFAULT_RESOLUTION\<rparr>
   \<and> snd (reset_user_settings (run_set_calls tbl cs) uid) =
     \<lparr>user_id = uid, model = DEFAULT_MODEL, duration = DEFAULT_DURATION,
      resolution = DEFAULT_RESOLUTION\<rparr>"
  by (simp add: reset_user_settings_def get_user_settings_def Let_def)

section \<open>Properties of the cost\<close>






section \<open>Properties of polling\<close>

lemma call_time_mono: "i \<le> j \<Longrightarrow> call_time R s i \<le> call_time R s j"
proof (induction j)
  case 0
  then show ?case by simp
next
  case (Suc j)
  then show ?case by (cases "i = Suc j") auto
qed

lemma poll_loop_exhausted:
  "\<not> int now - int s < mw * 1000 \<Longrightarrow>
     poll_loop py_str request ep opn mw s now n calls =
       \<lparr>poll_returned = timed_out, call_times = calls, returned_at = now\<rparr>"
  by (subst poll_loop.simps) (simp add: timed_out_def)

lemma poll_loop_not_done:
  "int now - int s < mw * 1000 \<Longrightarrow>
   reports_not_done (request ep (status_body opn) n) \<Longrightarrow>
     poll_loop py_str request ep opn mw s now n calls =
     poll_loop py_str request ep opn mw s
       (now + took (request ep (status_body opn) n) + 5000
          + overslept (request ep (status_body opn) n)) (Suc n) (calls @ [now])"
  by (subst poll_loop.simps)
    (auto simp: reports_not_done_def status_body_def Let_def split: sum.splits json.splits)

lemma poll_loop_done:
  "int now - int s < mw * 1000 \<Longrightarrow>
   reports_done_with (request ep (status_body opn) n) v \<Longrightarrow>
     \<exists>rai. poll_loop py_str request ep opn mw s now n calls =
       \<lparr>poll_returned =
          \<lparr>pr_done = True, pr_error = None, pr_videos = JList [v],
           pr_raiMediaFilteredCount = rai\<rparr>,
        call_times = calls @ [now],
        returned_at = now + took (request ep (status_body opn) n)\<rparr>"
  by (subst poll_loop.simps)
    (auto simp: reports_done_with_def status_body_def Let_def has_key_def
      split: sum.splits json.splits option.splits)

lemma poll_loop_completes:
  assumes "\<forall>j. i \<le> j \<and> j < k \<longrightarrow> reports_not_done (request ep (status_body opn) j)"
    and "reports_done_with (request ep (status_body opn) k) v"
    and "int (call_time (request ep (status_body opn)) s k) - int s < mw * 1000"
    and "i \<le> k"
  shows "\<exists>rai. poll_loop py_str request ep opn mw s
            (call_time (request ep (status_body opn)) s i) i calls =
       \<lparr>poll_returned =
          \<lparr>pr_done = True, pr_error = None, pr_videos = JList [v],
           pr_raiMediaFilteredCount = rai\<rparr>,
        call_times = calls @ map (call_time (request ep (status_body opn)) s) [i..<Suc k],
        returned_at = call_time (request ep (status_body opn)) s k
          + took (request ep (status_body opn) k)\<rparr>"
  using assms
proof (induction "k - i" arbitrary: i calls)
  case 0
  then have "i = k" by simp
  with poll_loop_done[where request=request and ep=ep and opn=opn and n=k and v=v
      and py_str=py_str and calls=calls and mw=mw and s=s
      and now="call_time (request ep (status_body opn)) s k", OF "0.prems"(3) "0.prems"(2)]
  show ?case
    by simp
next
  case (Suc d)
  let ?R = "request ep (status_body opn)"
  from Suc.hyps(2) have lt: "i < k" by simp
  have "call_time ?R s i \<le> call_time ?R s k"
    using Suc.prems(4) by (rule call_time_mono)
  with Suc.prems(3) have budget: "int (call_time ?R s i) - int s < mw * 1000"
    by linarith
  have nd: "reports_not_done (?R i)"
    using Suc.prems(1) lt by simp
  have step: "poll_loop py_str request ep opn mw s (call_time ?R s i) i calls =
      poll_loop py_str request ep opn mw s (call_time ?R s (Suc i)) (Suc i)
        (calls @ [call_time ?R s i])"
    using poll_loop_not_done[where request=request and ep=ep and opn=opn and n=i
      and py_str=py_str and calls=calls and mw=mw and s=s and now="call_time ?R s i",
      OF budget nd] by simp
  have "\<exists>rai. poll_loop py_str request ep opn mw s (call_time ?R s (Suc i)) (Suc i)
        (calls @ [call_time ?R s i]) =
       \<lparr>poll_returned =
          \<lparr>pr_done = True, pr_error = None, pr_videos = JList [v],
           pr_raiMediaFilteredCount = rai\<rparr>,
        call_times = (calls @ [call_time ?R s i]) @ map (call_time ?R s) [Suc i..<Suc k],
        returned_at = call_time ?R s k + took (?R k)\<rparr>"
  proof (rule Suc.hyps(1))
    show "d = k - Suc i" using Suc.hyps(2) by simp
    show "\<forall>j. Suc i \<le> j \<and> j < k \<longrightarrow> reports_not_done (?R j)"
      using Suc.prems(1) by simp
    show "reports_done_with (?R k) v" by (rule Suc.prems(2))
    show "int (call_time ?R s k) - int s < mw * 1000" by (rule Suc.prems(3))
    show "Suc i \<le> k" using lt by simp
  qed
  moreover have "[i..<Suc k] = i # [Suc i..<Suc k]"
    using lt by (simp add: upt_conv_Cons)
  ultimately show ?case
    unfolding step by simp
qed

lemma poll_loop_times_out:
  assumes "\<forall>j. i \<le> j \<and> int (call_time (request ep (status_body opn)) s j) - int s < mw * 1000
             \<longrightarrow> reports_not_done (request ep (status_body opn) j)"
  shows "\<exists>m. poll_loop py_str request ep opn mw s
            (call_time (request ep (status_body opn)) s i) i calls =
       \<lparr>poll_returned = timed_out,
        call_times = calls @ map (call_time (request ep (status_body opn)) s) [i..<i + m],
        returned_at = call_time (request ep (status_body opn)) s (i + m)\<rparr>"
  using assms
proof (induction "nat (mw * 1000 - (int (call_time (request ep (status_body opn)) s i) - int s))"
    arbitrary: i calls rule: less_induct)
  case less
  let ?R = "request ep (status_body opn)"
  show ?case
  proof (cases "int (call_time ?R s i) - int s < mw * 1000")
    case False
    from poll_loop_exhausted[OF False, of py_str request ep opn i calls]
    have "poll_loop py_str request ep opn mw s (call_time ?R s i) i calls =
       \<lparr>poll_returned = timed_out,
        call_times = calls @ map (call_time ?R s) [i..<i + 0],
        returned_at = call_time ?R s (i + 0)\<rparr>"
      by simp
    then show ?thesis by blast
  next
    case True
    have nd: "reports_not_done (?R i)"
      using less.prems True by simp
    have step: "poll_loop py_str request ep opn mw s (call_time ?R s i) i calls =
        poll_loop py_str request ep opn mw s (call_time ?R s (Suc i)) (Suc i)
          (calls @ [call_time ?R s i])"
      using poll_loop_not_done[where request=request and ep=ep and opn=opn and n=i
        and py_str=py_str and calls=calls and mw=mw and s=s and now="call_time ?R s i",
        OF True nd] by simp
    have "\<exists>m. poll_loop py_str request ep opn mw s (call_time ?R s (Suc i)) (Suc i)
          (calls @ [call_time ?R s i]) =
       \<lparr>poll_returned = timed_out,
        call_times = (calls @ [call_time ?R s i]) @ map (call_time ?R s) [Suc i..<Suc i + m],
        returned_at = call_time ?R s (Suc i + m)\<rparr>"
    proof (rule less.hyps)
      show "nat (mw * 1000 - (int (call_time ?R s (Suc i)) - int s))
          < nat (mw * 1000 - (int (call_time ?R s i) - int s))"
        using True by simp
      show "\<forall>j. Suc i \<le> j \<and> int (call_time ?R s j) - int s < mw * 1000
             \<longrightarrow> reports_not_done (?R j)"
        using less.prems by simp
    qed
    then obtain m where m: "poll_loop py_str request ep opn mw s (call_time ?R s (Suc i)) (Suc i)
          (calls @ [call_time ?R s i]) =
       \<lparr>poll_returned = timed_out,
        call_times = (calls @ [call_time ?R s i]) @ map (call_time ?R s) [Suc i..<Suc i + m],
        returned_at = call_time ?R s (Suc i + m)\<rparr>"
      by blast
    have "[i..<i + Suc m] = i # [Suc i..<Suc i + m]"
      by (simp add: upt_conv_Cons)
    with m have "poll_loop py_str request ep opn mw s (call_time ?R s i) i calls =
       \<lparr>poll_returned = timed_out,
        call_times = calls @ map (call_time ?R s) [i..<i + Suc m],
        returned_at = call_time ?R s (i + Suc m)\<rparr>"
      unfolding step by simp
    then show ?thesis by blast
  qed
qed

lemma timed_out_message: "str_contains ''Operation timed out'' ''timed out''"
  by simp

lemma poll_operation_runs:
  "((\<forall>i<k. reports_not_done (status_stub self request operation_name mdl i))
      \<and> reports_done_with (status_stub self request operation_name mdl k) v
      \<and> int (call_time (status_stub self request operation_name mdl) now k) - int now
           < max_wait_time * 1000
    \<longrightarrow>
      (let run = poll_operation self py_str request now operation_name mdl max_wait_time
       in call_times run = map (call_time (status_stub self request operation_name mdl) now) [0..<Suc k]
          \<and> length (call_times run) = k + 1
          \<and> (\<forall>i<k. call_times run ! Suc i =
                call_times run ! i + took (status_stub self request operation_name mdl i) + 5000
                  + overslept (status_stub self request operation_name mdl i))
          \<and> pr_done (poll_returned run)
          \<and> pr_error (poll_returned run) = None
          \<and> pr_videos (poll_returned run) = JList [v]))
   \<and> ((\<forall>i. int (call_time (status_stub self request operation_name mdl) now i) - int now
             < max_wait_time * 1000
           \<longrightarrow> reports_not_done (status_stub self request operation_name mdl i))
    \<longrightarrow>
      (let run = poll_operation self py_str request now operation_name mdl max_wait_time
       in \<not> pr_done (poll_returned run)
          \<and> pr_error (poll_returned run) = Some ''Operation timed out''
          \<and> str_contains ''Operation timed out'' ''timed out''
          \<and> pr_videos (poll_returned run) = JList []
          \<and> pr_raiMediaFilteredCount (poll_returned run) = None))"
proof (intro conjI impI)
  let ?R = "status_stub self request operation_name mdl"
  let ?run = "poll_operation self py_str request now operation_name mdl max_wait_time"
  assume h: "(\<forall>i<k. reports_not_done (?R i)) \<and> reports_done_with (?R k) v
      \<and> int (call_time ?R now k) - int now < max_wait_time * 1000"
  have R: "?R = request (poll_endpoint self mdl) (status_body operation_name)"
    by (simp add: status_stub_def fun_eq_iff)
  from h have "\<exists>rai. poll_loop py_str request (poll_endpoint self mdl) operation_name max_wait_time
        now (call_time ?R now 0) 0 [] =
       \<lparr>poll_returned =
          \<lparr>pr_done = True, pr_error = None, pr_videos = JList [v],
           pr_raiMediaFilteredCount = rai\<rparr>,
        call_times = [] @ map (call_time ?R now) [0..<Suc k],
        returned_at = call_time ?R now k + took (?R k)\<rparr>"
    unfolding R by (intro poll_loop_completes) simp_all
  then obtain rai where run: "?run =
       \<lparr>poll_returned =
          \<lparr>pr_done = True, pr_error = None, pr_videos = JList [v],
           pr_raiMediaFilteredCount = rai\<rparr>,
        call_times = map (call_time ?R now) [0..<Suc k],
        returned_at = call_time ?R now k + took (?R k)\<rparr>"
    by (auto simp: poll_operation_def Let_def)
  have spacing: "\<forall>i<k. map (call_time ?R now) [0..<Suc k] ! Suc i =
      map (call_time ?R now) [0..<Suc k] ! i + took (?R i) + 5000 + overslept (?R i)"
    by (simp del: upt_Suc)
  show "let run = ?run
       in call_times run = map (call_time ?R now) [0..<Suc k]
          \<and> length (call_times run) = k + 1
          \<and> (\<forall>i<k. call_times run ! Suc i =
                call_times run ! i + took (?R i) + 5000 + overslept (?R i))
          \<and> pr_done (poll_returned run)
          \<and> pr_error (poll_returned run) = None
          \<and> pr_videos (poll_returned run) = JList [v]"
    unfolding Let_def run using spacing by (simp del: upt_Suc)
next
  let ?R = "status_stub self request operation_name mdl"
  let ?run = "poll_operation self py_str request now operation_name mdl max_wait_time"
  assume h: "\<forall>i. int (call_time ?R now i) - int now < max_wait_time * 1000
           \<longrightarrow> reports_not_done (?R i)"
  have R: "?R = request (poll_endpoint self mdl) (status_body operation_name)"
    by (simp add: status_stub_def fun_eq_iff)
  from h have "\<exists>m. poll_loop py_str request (poll_endpoint self mdl) operation_name max_wait_time
        now (call_time ?R now 0) 0 [] =
       \<lparr>poll_returned = timed_out,
        call_times = [] @ map (call_time ?R now) [0..<0 + m],
        returned_at = call_time ?R now (0 + m)\<rparr>"
    unfolding R by (intro poll_loop_times_out) simp
  then obtain m where run: "?run =
       \<lparr>poll_returned = timed_out,
        call_times = map (call_time ?R now) [0..<m],
        returned_at = call_time ?R now m\<rparr>"
    by (auto simp: poll_operation_def Let_def)
  show "let run = ?run
       in \<not> pr_done (poll_returned run)
          \<and> pr_error (poll_returned run) = Some ''Operation timed out''
          \<and> str_contains ''Operation timed out'' ''timed out''
          \<and> pr_videos (poll_returned run) = JList []
          \<and> pr_raiMediaFilteredCount (poll_returned run) = None"
    unfolding Let_def run using timed_out_message by (simp add: timed_out_def)
qed

text \<open>
  C10. With a budget of zero seconds or less, \<^verbatim>\<open>poll_operation\<close> issues no status call
  and returns the timed-out result at once.
\<close>

theorem poll_operation_no_budget:
  "max_wait_time \<le> 0 \<Longrightarrow>
     poll_operation self py_str request now operation_name mdl max_wait_time =
       \<lparr>poll_returned =
          \<lparr>pr_done = False, pr_error = Some ''Operation timed out'', pr_videos = JList [],
           pr_raiMediaFilteredCount = None\<rparr>,
        call_times = [], returned_at = now\<rparr>"
  unfolding poll_operation_def Let_def
  by (subst poll_loop.simps) simp

theorem poll_operation_no_budget_witness:
  "poll_operation \<lparr>project_id = ''p'', location = ''us-central1''\<rparr> (\<lambda>j. [])
       (stub_done_after 0 (JObj [(''gcsUri'', JStr ''gs://b/v.mp4'')])) 1000 (JStr ''op'') ''veo'' 0 =
     \<lparr>poll_returned =
        \<lparr>pr_done = False, pr_error = Some ''Operation timed out'', pr_videos = JList [],
         pr_raiMediaFilteredCount = None\<rparr>,
      call_times = [], returned_at = 1000\<rparr>
   \<and> call_times (poll_operation \<lparr>project_id = ''p'', location = ''us-central1''\<rparr> (\<lambda>j. [])
       (stub_done_after 0 (JObj [(''gcsUri'', JStr ''gs://b/v.mp4'')])) 1000 (JStr ''op'') ''veo'' (- 5))
     = []"
  using
    poll_operation_no_budget [of 0 "\<lparr>project_id = ''p'', location = ''us-central1''\<rparr>"
      "\<lambda>j. []" "stub_done_after 0 (JObj [(''gcsUri'', JStr ''gs://b/v.mp4'')])" 1000
      "JStr ''op''" "''veo''"]
    poll_operation_no_budget [of "- 5" "\<lparr>project_id = ''p'', location = ''us-central1''\<rparr>"
      "\<lambda>j. []" "stub_done_after 0 (JObj [(''gcsUri'', JStr ''gs://b/v.mp4'')])" 1000
      "JStr ''op''" "''veo''"]
  by simp

section \<open>Properties of the download\<close>

subsection \<open>Decoding what was encoded\<close>

lemma b64_alphabet_length: "length b64_alphabet = 64" by (simp add: b64_alphabet_def)
lemma b64_alphabet_distinct: "distinct b64_alphabet" by (simp add: b64_alphabet_def)

lemma table_a2b_b2a: "unat i < 64 \<Longrightarrow> table_a2b_base64 (table_b2a_base64 i) = Some i"
  unfolding table_a2b_base64_def table_b2a_base64_def
  apply (subst map_of_zip_nth)
  apply (simp_all add: b64_alphabet_length b64_alphabet_distinct)
  done

lemma three_mask: "(3::byte) = mask 2" by (simp add: mask_eq_exp_minus_1)
lemma fifteen_mask: "(15::byte) = mask 4" by (simp add: mask_eq_exp_minus_1)
lemma sixtythree_mask: "(63::byte) = mask 6" by (simp add: mask_eq_exp_minus_1)

lemma Suc_Suc_diff_2: "2 \<le> n \<Longrightarrow> Suc (Suc (n - 2)) = n" by simp

lemma first_byte: "push_bit 2 (drop_bit 2 a) OR drop_bit 4 (push_bit 4 (a AND 3) OR drop_bit 4 b) = (a::byte)"
  unfolding three_mask
  apply (rule bit_word_eqI)
  subgoal for n
    by (cases "2 \<le> n") (auto simp: bit_simps Suc_Suc_diff_2 simp flip: take_bit_eq_mask)
  done

lemma sextetI:
  assumes "\<And>n. 6 \<le> n \<Longrightarrow> \<not> bit (w::byte) n"
  shows "unat w < 64"
proof -
  have "w = take_bit 6 w"
  proof (rule bit_word_eqI)
    fix n
    show "bit w n = bit (take_bit 6 w) n"
      using assms[of n] by (cases "6 \<le> n") (auto simp: bit_simps)
  qed
  then have "unat w = unat (take_bit 6 w)"
    by simp
  also have "\<dots> = take_bit 6 (unat w)"
    by (rule unsigned_take_bit_eq)
  also have "\<dots> = unat w mod 64"
    by (simp add: take_bit_eq_mod)
  also have "\<dots> < 64"
    by simp
  finally show ?thesis .
qed

lemma sextet_1: "unat (drop_bit 2 (a::byte)) < 64"
  by (rule sextetI) (auto simp: bit_simps dest: bit_imp_le_length)

lemma sextet_2: "unat (push_bit 4 (a AND 3) OR drop_bit 4 (b::byte)) < 64"
  unfolding three_mask
  by (rule sextetI) (auto simp: bit_simps dest: bit_imp_le_length simp flip: take_bit_eq_mask)

lemma sextet_3: "unat (push_bit 2 (b AND 15) OR drop_bit 6 (c::byte)) < 64"
  unfolding fifteen_mask
  by (rule sextetI) (auto simp: bit_simps dest: bit_imp_le_length simp flip: take_bit_eq_mask)

lemma sextet_4: "unat ((c::byte) AND 63) < 64"
  unfolding sixtythree_mask
  by (rule sextetI) (auto simp: bit_simps dest: bit_imp_le_length simp flip: take_bit_eq_mask)

lemma sextet_2_tail: "unat (push_bit 4 ((a::byte) AND 3)) < 64"
  unfolding three_mask
  by (rule sextetI) (auto simp: bit_simps dest: bit_imp_le_length simp flip: take_bit_eq_mask)

lemma sextet_3_tail: "unat (push_bit 2 ((a::byte) AND 15)) < 64"
  unfolding fifteen_mask
  by (rule sextetI) (auto simp: bit_simps dest: bit_imp_le_length simp flip: take_bit_eq_mask)


lemma second_byte: "push_bit 4 ((push_bit 4 (a AND 3) OR drop_bit 4 b) AND 15) OR drop_bit 2 (push_bit 2 (b AND 15) OR drop_bit 6 c) = (b::byte)"
  unfolding three_mask fifteen_mask
  apply (rule bit_word_eqI)
  subgoal for n
    by (cases "4 \<le> n") (auto simp: bit_simps simp flip: take_bit_eq_mask)
  done

lemma third_byte: "push_bit 6 ((push_bit 2 (b AND 15) OR drop_bit 6 c) AND 3) OR (c AND 63) = (c::byte)"
  unfolding three_mask fifteen_mask sixtythree_mask
  apply (rule bit_word_eqI)
  subgoal for n
    by (cases "6 \<le> n") (auto simp: bit_simps simp flip: take_bit_eq_mask)
  done

lemma first_byte_tail: "push_bit 2 (drop_bit 2 a) OR drop_bit 4 (push_bit 4 (a AND 3)) = (a::byte)"
  unfolding three_mask
  apply (rule bit_word_eqI)
  subgoal for n
    by (cases "2 \<le> n") (auto simp: bit_simps Suc_Suc_diff_2 simp flip: take_bit_eq_mask)
  done

lemma second_byte_tail: "push_bit 4 ((push_bit 4 (a AND 3) OR drop_bit 4 b) AND 15) OR drop_bit 2 (push_bit 2 (b AND 15)) = (b::byte)"
  unfolding three_mask fifteen_mask
  apply (rule bit_word_eqI)
  subgoal for n
    by (cases "4 \<le> n") (auto simp: bit_simps simp flip: take_bit_eq_mask)
  done

lemma pad_not_in: "table_a2b_base64 BASE64_PAD = None"
  by (simp add: table_a2b_base64_def BASE64_PAD_def b64_alphabet_def)

lemma b2a_not_pad: "unat i < 64 \<Longrightarrow> table_b2a_base64 i \<noteq> BASE64_PAD"
  using table_a2b_b2a[of i] pad_not_in by auto

lemma a2b_step0:
  "unat v < 64 \<Longrightarrow>
     a2b_base64 (table_b2a_base64 v # rest) 0 lc p out = a2b_base64 rest 1 v 0 out"
  by (simp add: table_a2b_b2a b2a_not_pad)

lemma a2b_step1:
  "unat v < 64 \<Longrightarrow>
     a2b_base64 (table_b2a_base64 v # rest) 1 lc p out =
     a2b_base64 rest 2 (v AND 15) 0 (out @ [push_bit 2 lc OR drop_bit 4 v])"
  by (simp add: table_a2b_b2a b2a_not_pad)

lemma a2b_step2:
  "unat v < 64 \<Longrightarrow>
     a2b_base64 (table_b2a_base64 v # rest) 2 lc p out =
     a2b_base64 rest 3 (v AND 3) 0 (out @ [push_bit 4 lc OR drop_bit 2 v])"
  by (simp add: table_a2b_b2a b2a_not_pad)

lemma a2b_step3:
  "unat v < 64 \<Longrightarrow>
     a2b_base64 (table_b2a_base64 v # rest) 3 lc p out =
     a2b_base64 rest 0 0 0 (out @ [push_bit 6 lc OR v])"
  by (simp add: table_a2b_b2a b2a_not_pad)

lemma a2b_two_pads: "a2b_base64 [BASE64_PAD, BASE64_PAD] 2 lc 0 out = Inr out"
  by simp

lemma a2b_one_pad: "a2b_base64 [BASE64_PAD] 3 lc 0 out = Inr out"
  by simp

lemma a2b_base64_b64encode:
  "a2b_base64 (b64encode bs) 0 lc 0 out = Inr (out @ bs)"
proof (induction bs arbitrary: lc out rule: b64encode.induct)
  case 1
  then show ?case by simp
next
  case (2 a)
  show ?case
    by (simp only: b64encode.simps a2b_step0[OF sextet_1] a2b_step1[OF sextet_2_tail] a2b_two_pads first_byte_tail)
next
  case (3 a b)
  show ?case
    by (simp only: b64encode.simps a2b_step0[OF sextet_1] a2b_step1[OF sextet_2] a2b_step2[OF sextet_3_tail] a2b_one_pad first_byte second_byte_tail
        append_assoc append.simps)
next
  case (4 a b c rest)
  have "a2b_base64 (b64encode (a # b # c # rest)) 0 lc 0 out =
        a2b_base64 (b64encode rest) 0 0 0 (out @ [a, b, c])"
    by (simp only: b64encode.simps a2b_step0[OF sextet_1] a2b_step1[OF sextet_2] a2b_step2[OF sextet_3] a2b_step3[OF sextet_4]
        first_byte second_byte third_byte append_assoc append.simps)
  also have "\<dots> = Inr ((out @ [a, b, c]) @ rest)"
    by (rule "4.IH")
  finally show ?case by simp
qed


lemma alphabet_ascii: "\<forall>c\<in>set b64_alphabet. (of_char c :: nat) < 128"
  by (simp add: b64_alphabet_def)

lemma b2a_ascii: "unat i < 64 \<Longrightarrow> (of_char (table_b2a_base64 i) :: nat) < 128"
  using alphabet_ascii by (simp add: table_b2a_base64_def b64_alphabet_length)

lemma pad_ascii: "(of_char BASE64_PAD :: nat) < 128"
  by (simp add: BASE64_PAD_def)

lemma b64encode_ascii: "list_all (\<lambda>c. (of_char c :: nat) < 128) (b64encode bs)"
proof (induction bs rule: b64encode.induct)
  case 1
  show ?case by simp
next
  case (2 a)
  show ?case
    by (simp only: b64encode.simps list.pred_inject b2a_ascii[OF sextet_1] b2a_ascii[OF sextet_2_tail]
        pad_ascii simp_thms)
next
  case (3 a b)
  show ?case
    by (simp only: b64encode.simps list.pred_inject b2a_ascii[OF sextet_1] b2a_ascii[OF sextet_2]
        b2a_ascii[OF sextet_3_tail] pad_ascii simp_thms)
next
  case (4 a b c rest)
  then show ?case
    by (simp only: b64encode.simps list.pred_inject list_all_append b2a_ascii[OF sextet_1]
        b2a_ascii[OF sextet_2] b2a_ascii[OF sextet_3] b2a_ascii[OF sextet_4] simp_thms)
qed

lemma b64decode_b64encode: "b64decode (JStr (b64encode bs)) = Inr bs"
proof -
  have "\<not> list_ex (\<lambda>c. (of_char c :: nat) \<ge> 128) (b64encode bs)"
    using b64encode_ascii[of bs] by (auto simp: list_ex_iff list_all_iff not_le)
  then show ?thesis
    using a2b_base64_b64encode[of bs 0 "[]"] by (simp add: b64decode_def)
qed

lemma a2b_base64_error:
  "a2b_base64 s q l p out = Inl e \<Longrightarrow> \<exists>m. e = BinasciiError m"
  by (induction s q l p out rule: a2b_base64.induct) (auto split: if_splits option.splits)

lemma b64decode_not_unsupported: "b64decode x \<noteq> Inl unsupported_encoding"
proof
  assume h: "b64decode x = Inl unsupported_encoding"
  show False
  proof (cases x)
    case (JStr t)
    with h show False
      by (auto simp: b64decode_def unsupported_encoding_def quote_def split: if_splits
          dest!: a2b_base64_error)
  qed (use h in \<open>simp_all add: b64decode_def unsupported_encoding_def\<close>)
qed

text \<open>
  C4. A descriptor without \<^verbatim>\<open>gcsUri\<close> whose \<^verbatim>\<open>bytesBase64Encoded\<close> is the base64
  encoding of the bytes \<open>b\<close> is downloaded as exactly \<open>b\<close>; and the error of an
  unsupported encoding is raised exactly when the descriptor has neither key.
\<close>

theorem download_video_inline:
  "(\<not> has_key video_data ''gcsUri''
      \<and> map_of video_data ''bytesBase64Encoded'' = Some (JStr (b64encode b))
    \<longrightarrow> download_video gcs video_data = Inr b)
   \<and> (download_video gcs video_data = Inl unsupported_encoding
      \<longleftrightarrow> \<not> has_key video_data ''gcsUri'' \<and> \<not> has_key video_data ''bytesBase64Encoded'')"
proof (intro conjI impI)
  assume "\<not> has_key video_data ''gcsUri''
      \<and> map_of video_data ''bytesBase64Encoded'' = Some (JStr (b64encode b))"
  then show "download_video gcs video_data = Inr b"
    by (simp add: download_video_def has_key_def dict_get_def b64decode_b64encode)
next
  show "download_video gcs video_data = Inl unsupported_encoding
      \<longleftrightarrow> \<not> has_key video_data ''gcsUri'' \<and> \<not> has_key video_data ''bytesBase64Encoded''"
  proof
    assume h: "download_video gcs video_data = Inl unsupported_encoding"
    show "\<not> has_key video_data ''gcsUri'' \<and> \<not> has_key video_data ''bytesBase64Encoded''"
    proof (cases "has_key video_data ''gcsUri''")
      case True
      with h show ?thesis
        by (auto simp: download_video_def unsupported_encoding_def quote_def no_attribute_def
            split: json.splits list.splits sum.splits)
    next
      case False
      with h b64decode_not_unsupported show ?thesis
        by (auto simp: download_video_def split: if_splits)
    qed
  next
    assume "\<not> has_key video_data ''gcsUri'' \<and> \<not> has_key video_data ''bytesBase64Encoded''"
    then show "download_video gcs video_data = Inl unsupported_encoding"
      by (simp add: download_video_def)
  qed
qed

lemma b64encode_Hi: "b64encode [72, 105] = ''SGk=''"
  by code_simp

theorem download_video_inline_witness:
  "download_video (\<lambda>bucket blob. Inl ''NotFound'') [(''bytesBase64Encoded'', JStr ''SGk='')]
     = Inr [72, 105]
   \<and> download_video (\<lambda>bucket blob. Inl ''NotFound'') [(''mimeType'', JStr ''video/mp4'')]
     = Inl unsupported_encoding"
  using download_video_inline [of "[(''bytesBase64Encoded'', JStr ''SGk='')]" "[72, 105]"
      "\<lambda>bucket blob. Inl ''NotFound''", unfolded b64encode_Hi]
    download_video_inline [of "[(''mimeType'', JStr ''video/mp4'')]" "[]"
      "\<lambda>bucket blob. Inl ''NotFound''"]
  by (simp add: has_key_def)

text \<open>
  C9. A descriptor with \<^verbatim>\<open>gcsUri\<close> is downloaded from object storage, whatever else it
  holds: the result is what the storage API gives for the bucket and the blob of the
  URI, and any descriptor with the same \<^verbatim>\<open>gcsUri\<close> entry, with or without an inline
  payload, gives the same result.
\<close>

theorem download_video_gcs_priority:
  "has_key video_data ''gcsUri'' \<longrightarrow>
     (\<forall>uri bucket_name blob_path.
        map_of video_data ''gcsUri'' = Some (JStr uri)
        \<and> split_once (CHR ''/'') (str_replace ''gs://'' [] uri) = [bucket_name, blob_path]
        \<longrightarrow> download_video gcs video_data =
            (case gcs bucket_name blob_path of
               Inl m \<Rightarrow> Inl (ExternalError m) | Inr bytes \<Rightarrow> Inr bytes))
     \<and> (\<forall>other. map_of other ''gcsUri'' = map_of video_data ''gcsUri''
          \<longrightarrow> download_video gcs other = download_video gcs video_data)"
  by (auto simp: download_video_def has_key_def dict_get_def)

theorem download_video_gcs_priority_witness:
  "download_video
     (\<lambda>bucket blob. if bucket = ''bucket'' \<and> blob = ''videos/v.mp4'' then Inr [1, 2, 3]
        else Inl ''NotFound'')
     [(''gcsUri'', JStr ''gs://bucket/videos/v.mp4''), (''bytesBase64Encoded'', JStr ''SGk='')]
   = Inr [1, 2, 3]
   \<and> download_video
     (\<lambda>bucket blob. if bucket = ''bucket'' \<and> blob = ''videos/v.mp4'' then Inr [1, 2, 3]
        else Inl ''NotFound'')
     [(''gcsUri'', JStr ''gs://bucket/videos/v.mp4'')]
   = Inr [1, 2, 3]"
  using download_video_gcs_priority [of
      "[(''gcsUri'', JStr ''gs://bucket/videos/v.mp4''), (''bytesBase64Encoded'', JStr ''SGk='')]"
      "\<lambda>bucket blob. if bucket = ''bucket'' \<and> blob = ''videos/v.mp4'' then Inr [1, 2, 3]
        else Inl ''NotFound''"]
  by (simp add: has_key_def split_once_def)

section \<open>Properties of the handler\<close>

subsection \<open>The demonstration remote\<close>

lemma demo_generate:
  "generate_video c py demo_remote t prompt m d r a sc = (Inr (JStr ''operations/1'', m), t + 300)"
  by (simp add: generate_video_def demo_remote_def Let_def has_key_def dict_get_def)

lemma demo_poll:
  "poll_operation c py demo_remote t opn m 600 =
     \<lparr>poll_returned =
        \<lparr>pr_done = True, pr_error = None,
         pr_videos = JList [JObj [(''bytesBase64Encoded'', JStr ''SGk='')]],
         pr_raiMediaFilteredCount = Some (JInt 0)\<rparr>,
      call_times = [t], returned_at = t + 300\<rparr>"
  unfolding poll_operation_def Let_def
  by (subst poll_loop.simps)
    (simp add: demo_remote_def Let_def has_key_def dict_get_def)

lemma demo_download:
  "download_video_untyped gcs (JObj [(''bytesBase64Encoded'', JStr ''SGk='')]) = Inr [72, 105]"
  using b64decode_b64encode[of "[72, 105]", unfolded b64encode_Hi]
  by (simp add: download_video_untyped_def download_video_def has_key_def dict_get_def)

subsection \<open>The ledger\<close>

lemma count_append:
  "get_successful_videos_count (xs @ ys) =
     get_successful_videos_count xs + get_successful_videos_count ys"
  by (simp add: get_successful_videos_count_def)

lemma count_success_rows: "get_successful_videos_count (map success_row is) = length is"
  by (induction "is") (simp_all add: get_successful_videos_count_def success_row_def)

lemma fold_max_upt: "fold max [1..<Suc n] (0::nat) = n"
proof (induction n)
  case 0
  show ?case by simp
next
  case (Suc n)
  have "fold max [1..<Suc (Suc n)] (0::nat) = max (Suc n) (fold max [1..<Suc n] 0)"
    by simp
  with Suc show ?case by simp
qed

lemma next_rowid_success_rows: "next_rowid (map success_row [1..<Suc n]) = Suc n"
proof -
  have "map msg_id (map success_row [1..<Suc n]) = [1..<Suc n]"
    by (simp add: success_row_def map_idI)
  then show ?thesis
    by (simp only: next_rowid_def fold_max_upt)
qed

lemma next_rowid_snoc: "next_rowid (xs @ [row]) = max (Suc (msg_id row)) (next_rowid xs)"
  by (simp add: next_rowid_def)

lemma update_message_append:
  "update_message (xs @ ys) i p q c st = update_message xs i p q c st @ update_message ys i p q c st"
  by (simp add: update_message_def)

lemma update_message_other:
  "\<forall>row\<in>set xs. msg_id row \<noteq> i \<Longrightarrow> update_message xs i p q c st = xs"
  by (simp add: update_message_def map_idI)

lemma next_rowid_fresh: "\<forall>row\<in>set xs. msg_id row \<noteq> next_rowid xs"
proof -
  have "\<And>acc. \<forall>x\<in>set ns. x \<le> fold max ns (acc::nat)" for ns
  proof (induction ns)
    case Nil
    show ?case by simp
  next
    case (Cons n ns)
    have "acc \<le> fold max ns acc" for acc :: nat
      by (induction ns arbitrary: acc) (auto intro: order_trans[OF max.cobounded2])
    from this[of "max n acc"] Cons show ?case by auto
  qed
  from this[of "map msg_id xs" 0] show ?thesis
    by (auto simp: next_rowid_def)
qed

lemma update_demo_row:
  "update_message [demo_row i c0 s0] i None None c st =
     [demo_row i (case c of None \<Rightarrow> c0 | Some x \<Rightarrow> x) (case st of None \<Rightarrow> s0 | Some x \<Rightarrow> x)]"
  by (simp add: update_message_def demo_row_def split: option.splits)

lemma update_new_row:
  "update_message (tbl @ [demo_row (next_rowid tbl) c0 s0]) (next_rowid tbl) None None c st =
     tbl @ [demo_row (next_rowid tbl)
              (case c of None \<Rightarrow> c0 | Some x \<Rightarrow> x) (case st of None \<Rightarrow> s0 | Some x \<Rightarrow> x)]"
  by (simp only: update_message_append update_message_other[OF next_rowid_fresh]
      update_demo_row)

lemma count_demo_row:
  "get_successful_videos_count (tbl @ [demo_row i c st]) =
     get_successful_videos_count tbl + (if st = ''success'' then 1 else 0)"
  by (simp add: get_successful_videos_count_def demo_row_def)

lemma successes_ledger: "ledger (world_with_successes n) = map success_row [1..<Suc n]"
  by (simp add: world_with_successes_def empty_world_def)

lemma successes_count: "get_successful_videos_count (ledger (world_with_successes n)) = n"
  by (simp only: successes_ledger count_success_rows) simp

lemma successes_next_rowid: "next_rowid (ledger (world_with_successes n)) = Suc n"
  by (simp only: successes_ledger next_rowid_success_rows)

lemma successes_settings: "settings (world_with_successes n) = Map.empty"
  by (simp add: world_with_successes_def empty_world_def)

lemma successes_trace: "trace (world_with_successes n) = []"
  by (simp add: world_with_successes_def empty_world_def)

subsection \<open>The quota check\<close>

lemma handle_message_quota_rejected:
  assumes "get_successful_videos_count (ledger w) \<ge> GLOBAL_VIDEO_QUOTA_LIMIT"
    and "message_text message = Some t" and "strip t \<noteq> []"
  shows "handle_message e message w =
      (w\<lparr>trace := trace w @
           [Telegram (Answer (QuotaLimitReached GLOBAL_VIDEO_QUOTA_LIMIT
              (get_successful_videos_count (ledger w)) (get_total_cost (ledger w))
              (int GLOBAL_VIDEO_QUOTA_LIMIT - int (get_successful_videos_count (ledger w)))))]\<rparr>,
       case env_tg_error e AtQuota of None \<Rightarrow> None | Some m \<Rightarrow> Some (ExternalError m))"
proof (cases t)
  case Nil
  with assms(3) show ?thesis by (simp add: strip_def)
next
  case (Cons c cs)
  with assms show ?thesis
    by (simp add: handle_message_def tg_call_def Let_def)
qed

lemma handle_message_at_quota_keeps_ledger:
  assumes "get_successful_videos_count (ledger w) \<ge> GLOBAL_VIDEO_QUOTA_LIMIT"
  shows "ledger (fst (handle_message e message w)) = ledger w"
proof (cases "message_text message")
  case None
  then show ?thesis by (simp add: handle_message_def tg_call_def Let_def)
next
  case (Some t)
  show ?thesis
  proof (cases "strip t = []")
    case True
    with Some show ?thesis
      by (cases t) (simp_all add: handle_message_def tg_call_def Let_def)
  next
    case False
    from handle_message_quota_rejected[OF assms Some False, of e] show ?thesis by simp
  qed
qed

text \<open>
  When a request finds the count at the limit, the ledger stays as it is through every
  request handled after it, one after the other.
\<close>

lemma quota_rejection_persists:
  "get_successful_videos_count (ledger w) \<ge> GLOBAL_VIDEO_QUOTA_LIMIT \<Longrightarrow>
     ledger (handle_all reqs w) = ledger w"
proof (induction reqs arbitrary: w)
  case Nil
  show ?case by simp
next
  case (Cons r reqs)
  obtain e message where r: "r = (e, message)" by (cases r)
  have keep: "ledger (fst (handle_message e message w)) = ledger w"
    using Cons.prems by (rule handle_message_at_quota_keeps_ledger)
  with Cons.prems Cons.IH[of "fst (handle_message e message w)"] r show ?case
    by simp
qed

subsection \<open>Runs that deliver the video\<close>

lemmas run_defs =
  handle_message_def generation_pipeline_def download_and_deliver_def deliver_video_def
  and_then_def tg_call_def db_update_def write_bytes_def create_message_def
  get_user_settings_def DEFAULT_MODEL_def DEFAULT_DURATION_def DEFAULT_RESOLUTION_def
  strip_def is_space_def first_item_def positive_count_def
  create_temp_file_def cleanup_def calculate_cost_def lower_def lower_char_def Let_def
  demo_env_def demo_message_def demo_generate demo_poll demo_download demo_row_def
  delivery_trace_def

lemma run_delivers:
  assumes "get_successful_videos_count (ledger w) < GLOBAL_VIDEO_QUOTA_LIMIT"
    and "settings w 42 = None"
  shows "handle_message (demo_env demo_remote (\<lambda>site. None) None) demo_message w =
      (\<lparr>ledger = update_message (ledger w @ [demo_row (next_rowid (ledger w)) 0 ''pending''])
                   (next_rowid (ledger w)) None None (Some (6 / 5)) (Some ''success''),
        settings = settings w,
        files = (files w)(demo_path := None),
        clock = clock w + 600,
        trace = trace w @ delivery_trace (next_rowid (ledger w))
          @ [DbUpdate (next_rowid (ledger w)) (Some ''success'') (Some (6 / 5)),
             Telegram DeleteStatus]\<rparr>,
       None)"
  using assms by (cases w) (simp add: run_defs)

lemma run_delivers_delete_fails:
  assumes "get_successful_videos_count (ledger w) < GLOBAL_VIDEO_QUOTA_LIMIT"
    and "settings w 42 = None"
  shows "handle_message
       (demo_env demo_remote (\<lambda>site. if site = AtDelete then Some ''timeout'' else None) None)
       demo_message w =
      (\<lparr>ledger =
          update_message
            (update_message (ledger w @ [demo_row (next_rowid (ledger w)) 0 ''pending''])
               (next_rowid (ledger w)) None None (Some (6 / 5)) (Some ''success''))
            (next_rowid (ledger w)) None None None (Some ''failed''),
        settings = settings w,
        files = (files w)(demo_path := None),
        clock = clock w + 600,
        trace = trace w @ delivery_trace (next_rowid (ledger w))
          @ [DbUpdate (next_rowid (ledger w)) (Some ''success'') (Some (6 / 5)),
             Telegram DeleteStatus,
             DbUpdate (next_rowid (ledger w)) (Some ''failed'') None,
             Telegram (EditText (ErrorOccurred ''timeout''))]\<rparr>,
       None)"
  using assms by (cases w) (simp add: run_defs)

lemma success_ledger:
  "update_message (tbl @ [demo_row (next_rowid tbl) 0 ''pending'']) (next_rowid tbl) None None
       (Some c) (Some ''success'') =
     tbl @ [demo_row (next_rowid tbl) c ''success'']"
  by (simp only: update_new_row option.case)

lemma revoked_ledger:
  "update_message
       (update_message (tbl @ [demo_row (next_rowid tbl) 0 ''pending'']) (next_rowid tbl) None None
          (Some c) (Some ''success''))
       (next_rowid tbl) None None None (Some ''failed'') =
     tbl @ [demo_row (next_rowid tbl) c ''failed'']"
  by (simp only: update_new_row option.case)

lemma empty_world_fields:
  "ledger empty_world = []" "settings empty_world = Map.empty" "trace empty_world = []"
  "next_rowid [] = 1" "get_successful_videos_count [] = 0"
  by (simp_all add: empty_world_def next_rowid_def get_successful_videos_count_def)

text \<open>
  C6. A record is created pending with cost 0, its status is changed at most once, and
  its cost is non-zero only when its status is success. The run below breaks it: every
  step up to the delivery succeeds, the record is updated to success with the cost 1.20,
  then the deletion of the status message raises inside the \<^verbatim>\<open>try\<close> block and the
  \<^verbatim>\<open>except\<close> clause updates the same record to failed. The record ends failed with the
  cost 1.20, after two changes of its status.
\<close>

theorem status_revoked_after_delivery:
  "(let w = fst (handle_message
             (demo_env demo_remote (\<lambda>site. if site = AtDelete then Some ''timeout'' else None) None)
             demo_message empty_world)
    in ledger w = [demo_row 1 (6 / 5) ''failed'']
       \<and> map msg_status (ledger w) = [''failed'']
       \<and> map msg_cost (ledger w) = [6 / 5]
       \<and> trace w =
           delivery_trace 1 @
           [DbUpdate 1 (Some ''success'') (Some (6 / 5)), Telegram DeleteStatus,
            DbUpdate 1 (Some ''failed'') None,
            Telegram (EditText (ErrorOccurred ''timeout''))])"
proof -
  have lt: "get_successful_videos_count (ledger empty_world) < GLOBAL_VIDEO_QUOTA_LIMIT"
    by (simp add: empty_world_fields GLOBAL_VIDEO_QUOTA_LIMIT_def)
  have none: "settings empty_world 42 = None"
    by (simp add: empty_world_fields)
  have row: "map msg_status [demo_row 1 (6 / 5) ''failed''] = [''failed'']"
    "map msg_cost [demo_row 1 (6 / 5) ''failed''] = [6 / 5]"
    by (simp_all add: demo_row_def)
  show ?thesis
    using revoked_ledger[of "[]" "6 / 5"] row
    by (simp add: run_delivers_delete_fails[OF lt none] empty_world_fields)
qed

text \<open>
  C2. At or above the limit of 70 successful records a prompt is rejected before a record
  is created (\<open>handle_message_quota_rejected\<close>, \<open>quota_rejection_persists\<close>), but a
  success can be revoked, so reaching the limit is not permanent. With 69 successful
  records, a run delivers the video and marks record 70 success: the ledger holds 70
  successes, the limit. The deletion of the status message then raises and record 70 is
  marked failed: 69 successes again. The next prompt is accepted, record 71 is created,
  and its video is generated.
\<close>

theorem quota_reopens_after_revoked_success:
  "(let w69 = world_with_successes 69;
        wA = fst (handle_message
               (demo_env demo_remote (\<lambda>site. if site = AtDelete then Some ''timeout'' else None)
                  None)
               demo_message w69);
        wB = fst (handle_message (demo_env demo_remote (\<lambda>site. None) None) demo_message wA)
    in get_successful_videos_count (ledger w69) = 69
       \<and> ledger wA =
           update_message
             (update_message (ledger w69 @ [demo_row 70 0 ''pending'']) 70 None None
                (Some (6 / 5)) (Some ''success''))
             70 None None None (Some ''failed'')
       \<and> get_successful_videos_count
            (update_message (ledger w69 @ [demo_row 70 0 ''pending'']) 70 None None
               (Some (6 / 5)) (Some ''success'')) = GLOBAL_VIDEO_QUOTA_LIMIT
       \<and> trace wA =
           delivery_trace 70 @
           [DbUpdate 70 (Some ''success'') (Some (6 / 5)), Telegram DeleteStatus,
            DbUpdate 70 (Some ''failed'') None,
            Telegram (EditText (ErrorOccurred ''timeout''))]
       \<and> get_successful_videos_count (ledger wA) = 69
       \<and> trace wB =
           trace wA @ delivery_trace 71 @
           [DbUpdate 71 (Some ''success'') (Some (6 / 5)), Telegram DeleteStatus]
       \<and> get_successful_videos_count (ledger wB) = 70)"
proof -
  let ?w69 = "world_with_successes 69"
  let ?L = "ledger ?w69"
  let ?envA = "demo_env demo_remote (\<lambda>site. if site = AtDelete then Some ''timeout'' else None)
                  None"
  let ?envB = "demo_env demo_remote (\<lambda>site. None) None"
  have n69: "next_rowid ?L = 70"
    by (simp add: successes_next_rowid)
  have c69: "get_successful_videos_count ?L = 69"
    by (rule successes_count)
  have lt: "get_successful_videos_count ?L < GLOBAL_VIDEO_QUOTA_LIMIT"
    by (simp add: c69 GLOBAL_VIDEO_QUOTA_LIMIT_def)
  have none: "settings ?w69 42 = None"
    by (simp add: successes_settings)
  define wA where "wA = fst (handle_message ?envA demo_message ?w69)"
  have ledgerA: "ledger wA =
      update_message
        (update_message (?L @ [demo_row 70 0 ''pending'']) 70 None None
           (Some (6 / 5)) (Some ''success''))
        70 None None None (Some ''failed'')"
    and traceA: "trace wA =
           delivery_trace 70 @
           [DbUpdate 70 (Some ''success'') (Some (6 / 5)), Telegram DeleteStatus,
            DbUpdate 70 (Some ''failed'') None,
            Telegram (EditText (ErrorOccurred ''timeout''))]"
    and settingsA: "settings wA 42 = None"
    unfolding wA_def run_delivers_delete_fails[OF lt none] n69
    by (simp_all add: successes_trace successes_settings)
  have mid: "update_message (?L @ [demo_row 70 0 ''pending'']) 70 None None
               (Some (6 / 5)) (Some ''success'') = ?L @ [demo_row 70 (6 / 5) ''success'']"
    using success_ledger[of ?L "6 / 5"] unfolding n69 .
  have ledgerA': "ledger wA = ?L @ [demo_row 70 (6 / 5) ''failed'']"
    using revoked_ledger[of ?L "6 / 5"] unfolding n69 ledgerA .
  have cmid: "get_successful_videos_count (?L @ [demo_row 70 (6 / 5) ''success''])
      = GLOBAL_VIDEO_QUOTA_LIMIT"
    by (simp add: count_demo_row c69 GLOBAL_VIDEO_QUOTA_LIMIT_def)
  have cA: "get_successful_videos_count (ledger wA) = 69"
    unfolding ledgerA' by (simp add: count_demo_row c69)
  have ltA: "get_successful_videos_count (ledger wA) < GLOBAL_VIDEO_QUOTA_LIMIT"
    by (simp add: cA GLOBAL_VIDEO_QUOTA_LIMIT_def)
  have nA: "next_rowid (ledger wA) = 71"
    unfolding ledgerA' by (simp add: next_rowid_snoc n69 demo_row_def)
  have midB: "update_message (ledger wA @ [demo_row 71 0 ''pending'']) 71 None None
                (Some (6 / 5)) (Some ''success'') = ledger wA @ [demo_row 71 (6 / 5) ''success'']"
    using success_ledger[of "ledger wA" "6 / 5"] unfolding nA .
  define wB where "wB = fst (handle_message ?envB demo_message wA)"
  have ledgerB: "ledger wB = ledger wA @ [demo_row 71 (6 / 5) ''success'']"
    and traceB: "trace wB =
           trace wA @ delivery_trace 71 @
           [DbUpdate 71 (Some ''success'') (Some (6 / 5)), Telegram DeleteStatus]"
    unfolding wB_def run_delivers[OF ltA settingsA] nA midB
    by simp_all
  have cB: "get_successful_videos_count (ledger wB) = 70"
    unfolding ledgerB by (simp add: count_demo_row cA)
  show ?thesis
    unfolding Let_def wA_def[symmetric] wB_def[symmetric]
    using c69 ledgerA cmid traceA cA traceB cB unfolding mid traceA
    by simp
qed

subsection \<open>The temporary file\<close>

text \<open>Once the delivery is attempted the file is removed, whether the delivery raises or not.\<close>

lemma deliver_video_cleans_up:
  "env_unlink_error e = None \<Longrightarrow>
     files (fst (deliver_video e message_id cost the_caption temp_file w)) temp_file = None"
  by (simp add: deliver_video_def tg_call_def and_then_def db_update_def cleanup_def Let_def
      split: option.splits)

text \<open>
  C5. The temporary file is deleted on every exit out of the download and delivery stage.
  The runs below break it: the file is created and the video written, then the status
  update before the upload raises; or the write itself raises. Both exits are before the
  inner \<^verbatim>\<open>try\<close>, so \<^verbatim>\<open>cleanup\<close> is not called and the file stays in the directory.
\<close>

theorem temp_file_left_behind:
  "(let w = fst (handle_message
             (demo_env demo_remote (\<lambda>site. if site = AtUploading then Some ''timeout'' else None)
                None)
             demo_message empty_world)
    in files w demo_path = Some [72, 105]
       \<and> TempCreate demo_path \<in> set (trace w)
       \<and> Cleanup demo_path \<notin> set (trace w))
   \<and> (let w = fst (handle_message
             (demo_env demo_remote (\<lambda>site. None) (Some ''No space left on device''))
             demo_message empty_world)
      in files w demo_path = Some []
         \<and> TempCreate demo_path \<in> set (trace w)
         \<and> Cleanup demo_path \<notin> set (trace w))"
  by (simp add: run_defs empty_world_def next_rowid_def get_successful_videos_count_def
      update_message_def GLOBAL_VIDEO_QUOTA_LIMIT_def)

subsection \<open>A poll that timed out\<close>

lemma timed_out_poll_downloads_nothing:
  assumes "generate_video (env_client e) (env_py_str e) (env_request e) (clock w) prompt
             (model us) (duration us) (resolution us) True 1 = (Inr (opn, m), t)"
    and "pr_error (poll_returned (poll_operation (env_client e) (env_py_str e) (env_request e) t
           opn (model us) 600)) = Some ''Operation timed out''"
    and "Download \<notin> set (trace w)"
  shows "Download \<notin> set (trace (fst (generation_pipeline e prompt us mid w)))"
  using assms
  by (simp add: generation_pipeline_def and_then_def tg_call_def db_update_def Let_def
      split: option.splits)

text \<open>
  C1. When the status endpoint reports not done in the first \<open>k\<close> status calls and done,
  with no error and the video list \<open>[v]\<close>, in call \<open>k + 1\<close>, and that call is issued
  within the budget, \<^verbatim>\<open>poll_operation\<close> makes exactly \<open>k + 1\<close> status calls, each one
  five seconds (plus the request and what the sleep overshoots) after the one before,
  and returns a completed result without error whose video list is \<open>[v]\<close>. When the
  endpoint reports not done in every call issued within the budget, the result has
  \<^verbatim>\<open>done\<close> false, the error \<^verbatim>\<open>Operation timed out\<close>, which contains \<^verbatim>\<open>timed out\<close>, and
  an empty video list; and the handler, on a poll of its pipeline that timed out, makes no
  download call.
\<close>

theorem poll_operation_spec:
  "((\<forall>i<k. reports_not_done (status_stub self request operation_name mdl i))
      \<and> reports_done_with (status_stub self request operation_name mdl k) v
      \<and> int (call_time (status_stub self request operation_name mdl) now k) - int now
           < max_wait_time * 1000
    \<longrightarrow>
      (let run = poll_operation self py_str request now operation_name mdl max_wait_time
       in call_times run = map (call_time (status_stub self request operation_name mdl) now) [0..<Suc k]
          \<and> length (call_times run) = k + 1
          \<and> (\<forall>i<k. call_times run ! Suc i =
                call_times run ! i + took (status_stub self request operation_name mdl i) + 5000
                  + overslept (status_stub self request operation_name mdl i))
          \<and> pr_done (poll_returned run)
          \<and> pr_error (poll_returned run) = None
          \<and> pr_videos (poll_returned run) = JList [v]))
   \<and> ((\<forall>i. int (call_time (status_stub self request operation_name mdl) now i) - int now
             < max_wait_time * 1000
           \<longrightarrow> reports_not_done (status_stub self request operation_name mdl i))
    \<longrightarrow>
      (let run = poll_operation self py_str request now operation_name mdl max_wait_time
       in \<not> pr_done (poll_returned run)
          \<and> pr_error (poll_returned run) = Some ''Operation timed out''
          \<and> str_contains ''Operation timed out'' ''timed out''
          \<and> pr_videos (poll_returned run) = JList []
          \<and> pr_raiMediaFilteredCount (poll_returned run) = None))
   \<and> (generate_video (env_client e) (env_py_str e) (env_request e) (clock w) prompt
          (model us) (duration us) (resolution us) True 1 = (Inr (opn, m), t)
       \<and> pr_error (poll_returned (poll_operation (env_client e) (env_py_str e) (env_request e) t
            opn (model us) 600)) = Some ''Operation timed out''
       \<and> Download \<notin> set (trace w)
    \<longrightarrow> Download \<notin> set (trace (fst (generation_pipeline e prompt us mid w))))"
  using poll_operation_runs [of k self request operation_name mdl v now max_wait_time py_str]
    timed_out_poll_downloads_nothing [of e w prompt us opn m t mid]
  by blast

theorem poll_operation_spec_witness:
  "(let run = poll_operation \<lparr>project_id = ''p'', location = ''us-central1''\<rparr> (\<lambda>j. [])
        (stub_done_after 2 (JObj [(''gcsUri'', JStr ''gs://b/v.mp4'')])) 1000 (JStr ''op'') ''veo'' 600
    in call_times run = [1000, 6310, 11620]
       \<and> pr_done (poll_returned run)
       \<and> pr_videos (poll_returned run) = JList [JObj [(''gcsUri'', JStr ''gs://b/v.mp4'')]])
   \<and> (let run = poll_operation \<lparr>project_id = ''p'', location = ''us-central1''\<rparr> (\<lambda>j. [])
        stub_never_done 1000 (JStr ''op'') ''veo'' 12
      in \<not> pr_done (poll_returned run)
         \<and> pr_error (poll_returned run) = Some ''Operation timed out''
         \<and> pr_videos (poll_returned run) = JList [])
   \<and> Download \<notin> set (trace (fst (generation_pipeline
        (demo_env stub_never_done (\<lambda>site. None) None) ''sunset''
        (get_user_settings Map.empty 42) 1 empty_world)))"
  using
    poll_operation_spec [where k = 2 and self = "\<lparr>project_id = ''p'', location = ''us-central1''\<rparr>"
      and py_str = "\<lambda>j. []" and now = 1000 and operation_name = "JStr ''op''" and mdl = "''veo''"
      and max_wait_time = 600 and v = "JObj [(''gcsUri'', JStr ''gs://b/v.mp4'')]"
      and request = "stub_done_after 2 (JObj [(''gcsUri'', JStr ''gs://b/v.mp4'')])",
      THEN conjunct1]
    poll_operation_spec [where self = "\<lparr>project_id = ''p'', location = ''us-central1''\<rparr>"
      and py_str = "\<lambda>j. []" and now = 1000 and operation_name = "JStr ''op''" and mdl = "''veo''"
      and max_wait_time = 12 and request = stub_never_done, THEN conjunct2, THEN conjunct1]
    poll_operation_spec [where self = "\<lparr>project_id = ''p'', location = ''us-central1''\<rparr>"
      and py_str = "\<lambda>j. []" and now = 300 and operation_name = "JStr ''operations/1''"
      and mdl = "''veo-3.1-fast-generate-001''"
      and max_wait_time = 600 and request = stub_never_done, THEN conjunct2, THEN conjunct1]
    poll_operation_spec [where e = "demo_env stub_never_done (\<lambda>site. None) None"
      and w = empty_world and prompt = "''sunset''" and us = "get_user_settings Map.empty 42"
      and opn = "JStr ''operations/1''" and m = "''veo-3.1-fast-generate-001''" and t = 300
      and mid = 1, THEN conjunct2, THEN conjunct2]
  by (simp add: Let_def status_stub_def stub_done_after_def stub_never_done_def
      reports_not_done_def reports_done_with_def dict_get_def has_key_def numeral_2_eq_2
      demo_env_def empty_world_def generate_video_def get_user_settings_def DEFAULT_MODEL_def
      DEFAULT_DURATION_def DEFAULT_RESOLUTION_def)

end
